theory Spec2Isabelle
  imports Main "HOL-Library.Word" "HOL-Library.Signed_Division"
begin

section \<open>The OpenGL kernel of rose: handles, errors and the backend\<close>

text \<open>
  The module \<^verbatim>\<open>rose.opengl.kernel\<close> wraps OpenGL objects (buffers, textures,
  framebuffers, shaders, programs) in move-only handles and creates them through
  \<^verbatim>\<open>initialize\<close> functions that return \<^verbatim>\<open>std::expected<object, error>\<close>.

  OpenGL itself is not part of the repository. It is taken as a parameter: a
  \<open>backend\<close> answers every call from the calls made and answered before it, and the
  state the functions thread is the log of the calls they made, each with its answer,
  oldest first. All answers are
  32 bits wide (\<^verbatim>\<open>GLenum\<close>, \<^verbatim>\<open>GLuint\<close>, \<^verbatim>\<open>GLint\<close>); for a call that writes
  through a pointer (\<^verbatim>\<open>glGenBuffers\<close>, \<^verbatim>\<open>glGetShaderiv\<close>, ...) the answer is
  the value the pointee holds after the call, which is 0 at every call site of the
  module when the backend leaves it untouched. The answer to a call that returns
  nothing is ignored.
\<close>

type_synonym GLuint = "32 word"
type_synonym GLenum = "32 word"
type_synonym GLint = "32 word"      \<comment> \<open>signed: compared with \<open><s\<close>, read with \<open>sint\<close>\<close>
type_synonym GLsizei = "32 word"    \<comment> \<open>signed\<close>
type_synonym GLsizeiptr = "64 word" \<comment> \<open>signed, as wide as \<^verbatim>\<open>size_t\<close>\<close>
type_synonym byte = "8 word"

datatype gl_call =
    GetError
  | GenBuffers
  | BindBuffer GLenum GLuint
  | BufferData GLenum GLsizeiptr "byte list" GLenum
  | DeleteBuffers GLuint
  | GenTextures
  | BindTexture GLenum GLuint
  | TexImage2D GLenum GLint GLenum GLsizei GLsizei GLint GLenum GLenum "byte list option"
  | DeleteTextures GLuint
  | GenFramebuffers
  | BindFramebuffer GLenum GLuint
  | FramebufferTexture2D GLenum GLenum GLenum GLuint GLint
  | CheckFramebufferStatus GLenum
  | DeleteFramebuffers GLuint
  | CreateShader GLenum
  | ShaderSource GLuint string
  | CompileShader GLuint
  | GetShaderiv GLuint GLenum
  | DeleteShader GLuint
  | CreateProgram
  | AttachShader GLuint GLuint
  | LinkProgram GLuint
  | GetProgramiv GLuint GLenum
  | DeleteProgram GLuint

type_synonym gl_log = "(gl_call \<times> 32 word) list"
type_synonym backend = "gl_log \<Rightarrow> gl_call \<Rightarrow> 32 word"

text \<open>One call: the backend answers, the call is logged.\<close>

definition gl :: "backend \<Rightarrow> gl_call \<Rightarrow> gl_log \<Rightarrow> 32 word \<times> gl_log" where
  "gl b c s = (b s c, s @ [(c, b s c)])"

definition gl_void :: "backend \<Rightarrow> gl_call \<Rightarrow> gl_log \<Rightarrow> gl_log" where
  "gl_void b c s = snd (gl b c s)"

text \<open>The calls of a log, without their answers.\<close>

definition calls :: "gl_log \<Rightarrow> gl_call list" where
  "calls s = map fst s"

text \<open>The constants of \<^verbatim>\<open>GL/glew.h\<close> that the module names, with the values of the
  OpenGL registry.\<close>

definition GL_NO_ERROR :: GLenum where "GL_NO_ERROR = 0"
definition GL_FALSE :: GLint where "GL_FALSE = 0"
definition GL_TEXTURE_2D :: GLenum where "GL_TEXTURE_2D = 0x0DE1"
definition GL_UNSIGNED_BYTE :: GLenum where "GL_UNSIGNED_BYTE = 0x1401"
definition GL_RGBA :: GLenum where "GL_RGBA = 0x1908"
definition GL_RGBA8 :: GLenum where "GL_RGBA8 = 0x8058"
definition GL_FRAGMENT_SHADER :: GLenum where "GL_FRAGMENT_SHADER = 0x8B30"
definition GL_VERTEX_SHADER :: GLenum where "GL_VERTEX_SHADER = 0x8B31"
definition GL_COMPILE_STATUS :: GLenum where "GL_COMPILE_STATUS = 0x8B81"
definition GL_LINK_STATUS :: GLenum where "GL_LINK_STATUS = 0x8B82"
definition GL_FRAMEBUFFER_COMPLETE :: GLenum where "GL_FRAMEBUFFER_COMPLETE = 0x8CD5"
definition GL_COLOR_ATTACHMENT0 :: GLenum where "GL_COLOR_ATTACHMENT0 = 0x8CE0"
definition GL_DEPTH_ATTACHMENT :: GLenum where "GL_DEPTH_ATTACHMENT = 0x8D00"
definition GL_FRAMEBUFFER :: GLenum where "GL_FRAMEBUFFER = 0x8D40"

subsection \<open>Generic object\<close>

text \<open>
  \<^verbatim>\<open>template <void Deleter(GLuint)> struct object { GLuint handle; ... }\<close>.
  The deleter is a parameter of every operation that can run it; it acts on the state
  \<open>'s\<close> of whatever it releases into.
\<close>

record object =
  handle :: GLuint

type_synonym 's deleter = "GLuint \<Rightarrow> 's \<Rightarrow> 's"

text \<open>\<^verbatim>\<open>object(GLuint handle = 0)\<close>\<close>

definition object_new :: "GLuint \<Rightarrow> object" where
  "object_new h = \<lparr>handle = h\<rparr>"

text \<open>\<^verbatim>\<open>~object() { if(this->handle != 0) Deleter(this->handle); }\<close>\<close>

definition object_destroy :: "'s deleter \<Rightarrow> object \<Rightarrow> 's \<Rightarrow> 's" where
  "object_destroy Deleter this s = (if handle this \<noteq> 0 then Deleter (handle this) s else s)"

text \<open>\<^verbatim>\<open>object(object&& other) : handle{std::exchange(other.handle, 0)}\<close>: the new
  object, and \<open>other\<close> as the constructor leaves it.\<close>

definition object_move :: "object \<Rightarrow> object \<times> object" where
  "object_move other = (\<lparr>handle = handle other\<rparr>, other\<lparr>handle := 0\<rparr>)"

text \<open>The body of \<^verbatim>\<open>operator=(object other)\<close>: \<^verbatim>\<open>std::swap(this->handle, other.handle)\<close>.
  It gives \<open>this\<close> and the by-value parameter \<open>other\<close> as the body leaves them.\<close>

definition object_assign_body :: "object \<Rightarrow> object \<Rightarrow> object \<times> object" where
  "object_assign_body this other =
     (this\<lparr>handle := handle other\<rparr>, other\<lparr>handle := handle this\<rparr>)"

text \<open>
  The statement \<^verbatim>\<open>a = std::move(b);\<close> on objects that live in a store, so that
  \<open>a\<close> and \<open>b\<close> may be the same object: the parameter \<open>other\<close> is move-constructed
  from \<open>b\<close>, the body swaps it with \<open>a\<close>, and the parameter is destroyed when the
  statement ends.
\<close>

type_synonym addr = nat
type_synonym store = "addr \<Rightarrow> object"

definition move_assign :: "'s deleter \<Rightarrow> addr \<Rightarrow> addr \<Rightarrow> store \<Rightarrow> 's \<Rightarrow> store \<times> 's" where
  "move_assign Deleter a b m s =
     (let (other, b') = object_move (m b);
          m1 = m(b := b');
          (this', other') = object_assign_body (m1 a) other;
          m2 = m1(a := this')
      in (m2, object_destroy Deleter other' s))"

subsection \<open>Error\<close>

text \<open>\<^verbatim>\<open>struct error { long long line, code; }\<close>. Both fields only ever hold a line
  number of the file or an unsigned 32-bit value of the backend, converted without
  loss; they are integers here.\<close>

record error =
  line :: int
  code :: int

type_synonym 'a expected = "error + 'a"

subsection \<open>Discarding pending errors\<close>

text \<open>\<^verbatim>\<open>while(glGetError() != GL_NO_ERROR) { }\<close>. Nothing in the module bounds the
  number of rounds: with a backend that reports an error for ever the loop does not
  return, which is the value \<open>None\<close>.\<close>

definition glGetError :: "backend \<Rightarrow> gl_log \<Rightarrow> GLenum \<times> gl_log" where
  "glGetError b s = gl b GetError s"

partial_function (option) discard_errors :: "backend \<Rightarrow> gl_log \<Rightarrow> gl_log option" where
  "discard_errors b s =
     (case glGetError b s of (c, s') \<Rightarrow>
        if c \<noteq> GL_NO_ERROR then discard_errors b s' else Some s')"

subsection \<open>Buffer\<close>

text \<open>\<^verbatim>\<open>using buffer = object<+[](GLuint handle) { glDeleteBuffers(1, &handle); }>\<close>\<close>

definition buffer_deleter :: "backend \<Rightarrow> gl_log deleter" where
  "buffer_deleter b h s = gl_void b (DeleteBuffers h) s"

record buffer_parameters =
  type :: GLenum
  usage :: GLenum
  bytes :: "byte list"

text \<open>
  \<^verbatim>\<open>bytes.size()\<close> is a \<^verbatim>\<open>size_t\<close> and \<^verbatim>\<open>GLsizeiptr\<close> a signed integer of the same
  width, 64 bits here. The cast to \<^verbatim>\<open>GLsizeiptr\<close> keeps the bits; the cast back
  is compared with the length itself.

  Locals are destroyed in reverse order of declaration when the function returns: first
  the guard, whose destructor is \<^verbatim>\<open>glBindBuffer(type, 0)\<close>, then \<open>result\<close>. On the
  last line \<open>result\<close> is moved into the returned value before that.
\<close>

definition initialize_buffer ::
    "backend \<Rightarrow> buffer_parameters \<Rightarrow> gl_log \<Rightarrow> (object expected \<times> gl_log) option" where
  "initialize_buffer b parameters s =
     (case discard_errors b s of
        None \<Rightarrow> None
      | Some s0 \<Rightarrow>
          let size = (of_nat (length (bytes parameters)) :: GLsizeiptr) in
          if size \<le>s 0 \<or> unat size \<noteq> length (bytes parameters)
          then Some (Inl \<lparr>line = 125, code = 0\<rparr>, s0)
          else
            let (h, s1) = gl b GenBuffers s0;
                result = (object_new 0)\<lparr>handle := h\<rparr>;
                (code, s2) = glGetError b s1
            in if code \<noteq> GL_NO_ERROR
               then Some (Inl \<lparr>line = 134, code = uint code\<rparr>,
                          object_destroy (buffer_deleter b) result s2)
               else
                 let guard = (\<lambda>t. gl_void b (BindBuffer (type parameters) 0) t);
                     s3 = gl_void b (BindBuffer (type parameters) (handle result)) s2;
                     s4 = gl_void b (BufferData (type parameters) size (bytes parameters)
                                        (usage parameters)) s3;
                     (code, s5) = glGetError b s4
                 in if code \<noteq> GL_NO_ERROR
                    then Some (Inl \<lparr>line = 153, code = uint code\<rparr>,
                               object_destroy (buffer_deleter b) result (guard s5))
                    else
                      let (returned, result') = object_move result
                      in Some (Inr returned,
                               object_destroy (buffer_deleter b) result' (guard s5)))"

subsection \<open>Texture\<close>

text \<open>\<^verbatim>\<open>using texture = object<+[](GLuint handle) { glDeleteTextures(1, &handle); }>\<close>\<close>

definition texture_deleter :: "backend \<Rightarrow> gl_log deleter" where
  "texture_deleter b h s = gl_void b (DeleteTextures h) s"

record texture_parameters =
  width :: GLsizei
  height :: GLsizei
  mipmap_count :: GLsizei
  pixels :: "byte list"

text \<open>Division of \<^verbatim>\<open>int\<close> truncates towards zero; \<^verbatim>\<open>std::max(a, b)\<close> is
  \<^verbatim>\<open>(a < b) ? b : a\<close> on signed values; a cast from \<^verbatim>\<open>int\<close> to \<^verbatim>\<open>size_t\<close>
  extends the sign, a cast to \<^verbatim>\<open>GLuint\<close> keeps the bits. Signed arithmetic wraps
  around here where C++ leaves overflow undefined; the range check of texture
  initialization keeps every product of the loop below \<open>2\<^sup>3\<^sup>0\<close>.\<close>

definition int_div :: "GLsizei \<Rightarrow> GLsizei \<Rightarrow> GLsizei" where
  "int_div x y = word_of_int (sint x sdiv sint y)"

definition std_max :: "GLsizei \<Rightarrow> GLsizei \<Rightarrow> GLsizei" where
  "std_max x y = (if x <s y then y else x)"

definition size_t_of_int :: "GLsizei \<Rightarrow> nat" where
  "size_t_of_int x = unat (scast x :: 64 word)"

text \<open>
  The loop \<^verbatim>\<open>for(auto i = GLint{}; i != parameters.mipmap_count; ++i)\<close>, from the
  value of \<open>i\<close> it is entered with. It yields the error of the \<^verbatim>\<open>return\<close> inside
  its body, or nothing when it runs to its end. The data pointer handed to
  \<^verbatim>\<open>glTexImage2D\<close> is \<open>None\<close> for \<^verbatim>\<open>nullptr\<close> and otherwise the span it points
  into, from the byte it points at.
\<close>

function texture_loop ::
    "backend \<Rightarrow> GLint \<Rightarrow> texture_parameters \<Rightarrow> gl_log \<Rightarrow> error option \<times> gl_log" where
  "texture_loop b i parameters s =
     (if i \<noteq> mipmap_count parameters then
        let size = width parameters * height parameters * 4;
            pixel_data = (if unat size > length (pixels parameters) then None
                          else Some (pixels parameters));
            s1 = gl_void b (TexImage2D GL_TEXTURE_2D i GL_RGBA8 (width parameters)
                              (height parameters) 0 GL_RGBA GL_UNSIGNED_BYTE pixel_data) s;
            (code, s2) = glGetError b s1
        in if code \<noteq> GL_NO_ERROR then (Some \<lparr>line = 245, code = uint code\<rparr>, s2)
           else texture_loop b (i + 1)
                  (parameters
                     \<lparr>pixels := drop (min (length (pixels parameters)) (size_t_of_int size))
                                   (pixels parameters),
                      width := std_max 1 (int_div (width parameters) 2),
                      height := std_max 1 (int_div (height parameters) 2)\<rparr>) s2
      else (None, s))"
  by pat_completeness auto
termination
proof (relation "measure (\<lambda>(b, i, parameters, s). unat (mipmap_count parameters - i))")
  show "wf (measure (\<lambda>(b, i, parameters, s). unat (mipmap_count parameters - i)))"
    by simp
next
  fix b :: backend and i :: GLint and parameters :: texture_parameters and s :: gl_log
  fix x xa xb xc y
  assume ne: "i \<noteq> mipmap_count parameters"
  have nz: "mipmap_count parameters - i \<noteq> 0"
    using ne by simp
  have eq: "mipmap_count parameters - (i + 1) = (mipmap_count parameters - i) - 1"
    by simp
  have "unat (mipmap_count parameters - (i + 1)) = unat (mipmap_count parameters - i) - 1"
    by (simp only: eq unat_minus_one [OF nz])
  moreover have "0 < unat (mipmap_count parameters - i)"
    using nz by (simp add: unat_gt_0)
  ultimately show
    "((b, i + 1,
       parameters
         \<lparr>pixels := drop (min (length (pixels parameters)) (size_t_of_int xa))
                       (pixels parameters),
          width := std_max 1 (int_div (width parameters) 2),
          height := std_max 1 (int_div (height parameters) 2)\<rparr>, y),
      (b, i, parameters, s))
     \<in> measure (\<lambda>(b, i, parameters, s). unat (mipmap_count parameters - i))"
    by simp
qed

declare texture_loop.simps [simp del]

text \<open>
  The walk over the mip levels as the specification words it, on natural numbers: for
  the level index \<open>i\<close> and \<open>n\<close> levels to go, the level's size in bytes is
  \<open>w * h * 4\<close>; the level gets a null pointer when that size exceeds the length of the
  remaining span, and otherwise the span, of which it reads the leading bytes; the span
  advances by the smaller of the size and its length; the next width and height are
  the halves, rounded down and not below 1. A level is its index, width, height and data.
\<close>

type_synonym mip_level = "nat \<times> nat \<times> nat \<times> byte list option"

fun mip_chain :: "nat \<Rightarrow> nat \<Rightarrow> nat \<Rightarrow> nat \<Rightarrow> byte list \<Rightarrow> mip_level list" where
  "mip_chain i 0 w h px = []"
| "mip_chain i (Suc n) w h px =
     (i, w, h, if w * h * 4 > length px then None else Some px) #
     mip_chain (Suc i) n (max 1 (w div 2)) (max 1 (h div 2))
       (drop (min (w * h * 4) (length px)) px)"

text \<open>The \<^verbatim>\<open>glTexImage2D\<close> call of the loop body for such a level.\<close>

definition level_call :: "mip_level \<Rightarrow> gl_call" where
  "level_call lv =
     (case lv of (i, w, h, d) \<Rightarrow>
        TexImage2D GL_TEXTURE_2D (of_nat i) GL_RGBA8 (of_nat w) (of_nat h) 0
          GL_RGBA GL_UNSIGNED_BYTE d)"

text \<open>
  The walk with its error checks, as the specification words it: ``check the error flag
  after each level upload; first failure aborts and returns''. Each level is uploaded
  and the error flag read; an error ends the walk with the failure of line 245 carrying
  it, and otherwise the walk goes on to the next level.
\<close>

fun mip_walk :: "backend \<Rightarrow> mip_level list \<Rightarrow> gl_log \<Rightarrow> error option \<times> gl_log" where
  "mip_walk b [] s = (None, s)"
| "mip_walk b (lv # lvs) s =
     (let s1 = s @ [(level_call lv, b s (level_call lv))];
          e = b s1 GetError;
          s2 = s1 @ [(GetError, e)]
      in if e \<noteq> GL_NO_ERROR then (Some \<lparr>line = 245, code = uint e\<rparr>, s2)
         else mip_walk b lvs s2)"

definition initialize_texture ::
    "backend \<Rightarrow> texture_parameters \<Rightarrow> gl_log \<Rightarrow> (object expected \<times> gl_log) option" where
  "initialize_texture b parameters s =
     (case discard_errors b s of
        None \<Rightarrow> None
      | Some s0 \<Rightarrow>
          if (width parameters \<le>s 0 \<or> 16384 \<le>s width parameters) \<or>
             (height parameters \<le>s 0 \<or> 16384 \<le>s height parameters) \<or>
             (mipmap_count parameters \<le>s 0 \<or> 16384 \<le>s mipmap_count parameters)
          then Some (Inl \<lparr>line = 201, code = 0\<rparr>, s0)
          else
            let (h, s1) = gl b GenTextures s0;
                result = (object_new 0)\<lparr>handle := h\<rparr>;
                (code, s2) = glGetError b s1
            in if code \<noteq> GL_NO_ERROR
               then Some (Inl \<lparr>line = 210, code = uint code\<rparr>,
                          object_destroy (texture_deleter b) result s2)
               else
                 let guard = (\<lambda>t. gl_void b (BindTexture GL_TEXTURE_2D 0) t);
                     s3 = gl_void b (BindTexture GL_TEXTURE_2D (handle result)) s2;
                     (code, s4) = glGetError b s3
                 in if code \<noteq> GL_NO_ERROR
                    then Some (Inl \<lparr>line = 225, code = uint code\<rparr>,
                               object_destroy (texture_deleter b) result (guard s4))
                    else
                      (case texture_loop b 0 parameters s4 of
                         (Some e, s5) \<Rightarrow>
                           Some (Inl e, object_destroy (texture_deleter b) result (guard s5))
                       | (None, s5) \<Rightarrow>
                           let (returned, result') = object_move result
                           in Some (Inr returned,
                                    object_destroy (texture_deleter b) result' (guard s5))))"

subsection \<open>Framebuffer\<close>

text \<open>\<^verbatim>\<open>using framebuffer = object<+[](GLuint handle) { glDeleteFramebuffers(1, &handle); }>\<close>\<close>

definition framebuffer_deleter :: "backend \<Rightarrow> gl_log deleter" where
  "framebuffer_deleter b h s = gl_void b (DeleteFramebuffers h) s"

record framebuffer_parameters =
  render_target :: GLuint
  depth_buffer :: GLuint

definition initialize_framebuffer ::
    "backend \<Rightarrow> framebuffer_parameters \<Rightarrow> gl_log \<Rightarrow> (object expected \<times> gl_log) option" where
  "initialize_framebuffer b parameters s =
     (case discard_errors b s of
        None \<Rightarrow> None
      | Some s0 \<Rightarrow>
          let (h, s1) = gl b GenFramebuffers s0;
              result = (object_new 0)\<lparr>handle := h\<rparr>;
              (code, s2) = glGetError b s1
          in if code \<noteq> GL_NO_ERROR
             then Some (Inl \<lparr>line = 301, code = uint code\<rparr>,
                        object_destroy (framebuffer_deleter b) result s2)
             else
               let guard = (\<lambda>t. gl_void b (BindFramebuffer GL_FRAMEBUFFER 0) t);
                   s3 = gl_void b (BindFramebuffer GL_FRAMEBUFFER (handle result)) s2;
                   s4 = (if render_target parameters \<noteq> 0
                         then gl_void b (FramebufferTexture2D GL_FRAMEBUFFER GL_COLOR_ATTACHMENT0
                                           GL_TEXTURE_2D (render_target parameters) 0) s3
                         else s3);
                   s5 = (if depth_buffer parameters \<noteq> 0
                         then gl_void b (FramebufferTexture2D GL_FRAMEBUFFER GL_DEPTH_ATTACHMENT
                                           GL_TEXTURE_2D (depth_buffer parameters) 0) s4
                         else s4);
                   (status, s6) = gl b (CheckFramebufferStatus GL_FRAMEBUFFER) s5
               in if status \<noteq> GL_FRAMEBUFFER_COMPLETE
                  then Some (Inl \<lparr>line = 329, code = uint status\<rparr>,
                             object_destroy (framebuffer_deleter b) result (guard s6))
                  else
                    let (code, s7) = glGetError b s6
                    in if code \<noteq> GL_NO_ERROR
                       then Some (Inl \<lparr>line = 334, code = uint code\<rparr>,
                                  object_destroy (framebuffer_deleter b) result (guard s7))
                       else
                         let (returned, result') = object_move result
                         in Some (Inr returned,
                                  object_destroy (framebuffer_deleter b) result' (guard s7)))"

text \<open>
  The same function as \<^verbatim>\<open>src/rose.opengl.kernel.ccm\<close> has it: the parameters hold a
  render target only, and a render target of 0 is refused before anything is created.
\<close>

record kernel_framebuffer_parameters =
  kernel_render_target :: GLuint

definition kernel_initialize_framebuffer ::
    "backend \<Rightarrow> kernel_framebuffer_parameters \<Rightarrow> gl_log \<Rightarrow> (object expected \<times> gl_log) option"
  where
  "kernel_initialize_framebuffer b parameters s =
     (case discard_errors b s of
        None \<Rightarrow> None
      | Some s0 \<Rightarrow>
          if kernel_render_target parameters = 0
          then Some (Inl \<lparr>line = 323, code = 0\<rparr>, s0)
          else
            let (h, s1) = gl b GenFramebuffers s0;
                result = (object_new 0)\<lparr>handle := h\<rparr>;
                (code, s2) = glGetError b s1
            in if code \<noteq> GL_NO_ERROR
               then Some (Inl \<lparr>line = 332, code = uint code\<rparr>,
                          object_destroy (framebuffer_deleter b) result s2)
               else
                 let guard = (\<lambda>t. gl_void b (BindFramebuffer GL_FRAMEBUFFER 0) t);
                     s3 = gl_void b (BindFramebuffer GL_FRAMEBUFFER (handle result)) s2;
                     s4 = gl_void b (FramebufferTexture2D GL_FRAMEBUFFER GL_COLOR_ATTACHMENT0
                                       GL_TEXTURE_2D (kernel_render_target parameters) 0) s3;
                     (status, s5) = gl b (CheckFramebufferStatus GL_FRAMEBUFFER) s4
                 in if status \<noteq> GL_FRAMEBUFFER_COMPLETE
                    then Some (Inl \<lparr>line = 351, code = uint status\<rparr>,
                               object_destroy (framebuffer_deleter b) result (guard s5))
                    else
                      let (code, s6) = glGetError b s5
                      in if code \<noteq> GL_NO_ERROR
                         then Some (Inl \<lparr>line = 356, code = uint code\<rparr>,
                                    object_destroy (framebuffer_deleter b) result (guard s6))
                         else
                           let (returned, result') = object_move result
                           in Some (Inr returned,
                                    object_destroy (framebuffer_deleter b) result' (guard s6)))"

subsection \<open>Shader\<close>

text \<open>\<^verbatim>\<open>using shader = object<+[](GLuint handle) { glDeleteShader(handle); }>\<close>\<close>

definition shader_deleter :: "backend \<Rightarrow> gl_log deleter" where
  "shader_deleter b h s = gl_void b (DeleteShader h) s"

text \<open>\<^verbatim>\<open>struct shader_parameters { GLenum type; GLchar const* code; }\<close>; the fields
  carry a prefix here, \<open>type\<close> and \<open>code\<close> being fields of records above.\<close>

record shader_parameters =
  shader_type :: GLenum
  shader_code :: string

definition initialize_shader ::
    "backend \<Rightarrow> shader_parameters \<Rightarrow> gl_log \<Rightarrow> (object expected \<times> gl_log) option" where
  "initialize_shader b parameters s =
     (case discard_errors b s of
        None \<Rightarrow> None
      | Some s0 \<Rightarrow>
          let (h, s1) = gl b (CreateShader (shader_type parameters)) s0;
              result = object_new h
          in if handle result = 0
             then Some (Inl \<lparr>line = 378, code = 0\<rparr>,
                        object_destroy (shader_deleter b) result s1)
             else
               let s2 = gl_void b (ShaderSource (handle result) (shader_code parameters)) s1;
                   s3 = gl_void b (CompileShader (handle result)) s2;
                   (succeeded, s4) = gl b (GetShaderiv (handle result) GL_COMPILE_STATUS) s3
               in if succeeded = 0
                  then Some (Inl \<lparr>line = 388, code = 0\<rparr>,
                             object_destroy (shader_deleter b) result s4)
                  else
                    let (code, s5) = glGetError b s4
                    in if code \<noteq> GL_NO_ERROR
                       then Some (Inl \<lparr>line = 394, code = uint code\<rparr>,
                                  object_destroy (shader_deleter b) result s5)
                       else
                         let (returned, result') = object_move result
                         in Some (Inr returned,
                                  object_destroy (shader_deleter b) result' s5))"

subsection \<open>Program\<close>

text \<open>\<^verbatim>\<open>using program = object<+[](GLuint handle) { glDeleteProgram(handle); }>\<close>\<close>

definition program_deleter :: "backend \<Rightarrow> gl_log deleter" where
  "program_deleter b h s = gl_void b (DeleteProgram h) s"

record program_codes =
  vertex_shader :: string
  fragment_shader :: string

record program_parameters =
  codes :: program_codes

text \<open>
  The locals \<open>vertex_shader\<close> and \<open>fragment_shader\<close> are \<^verbatim>\<open>std::expected<shader, error>\<close>:
  destroying one that holds a shader destroys the shader, destroying one that holds an
  error does nothing. At a \<^verbatim>\<open>return\<close> the locals declared so far are destroyed, the
  last declared first.
\<close>

definition initialize_program ::
    "backend \<Rightarrow> program_parameters \<Rightarrow> gl_log \<Rightarrow> (object expected \<times> gl_log) option" where
  "initialize_program b parameters s =
     (case initialize_shader b
             \<lparr>shader_type = GL_VERTEX_SHADER,
              shader_code = vertex_shader (codes parameters)\<rparr> s of
        None \<Rightarrow> None
      | Some (Inl e, s1) \<Rightarrow> Some (Inl e, s1)
      | Some (Inr vs, s1) \<Rightarrow>
          (case initialize_shader b
                  \<lparr>shader_type = GL_FRAGMENT_SHADER,
                   shader_code = fragment_shader (codes parameters)\<rparr> s1 of
             None \<Rightarrow> None
           | Some (Inl e, s2) \<Rightarrow> Some (Inl e, object_destroy (shader_deleter b) vs s2)
           | Some (Inr fs, s2) \<Rightarrow>
               let leave = (\<lambda>result t.
                      object_destroy (shader_deleter b) vs
                        (object_destroy (shader_deleter b) fs
                           (object_destroy (program_deleter b) result t)));
                   (h, s3) = gl b CreateProgram s2;
                   result = object_new h
               in if handle result = 0
                  then Some (Inl \<lparr>line = 452, code = 0\<rparr>, leave result s3)
                  else
                    let s4 = gl_void b (AttachShader (handle result) (handle vs)) s3;
                        s5 = gl_void b (AttachShader (handle result) (handle fs)) s4;
                        s6 = gl_void b (LinkProgram (handle result)) s5;
                        (succeeded, s7) = gl b (GetProgramiv (handle result) GL_LINK_STATUS) s6
                    in if succeeded = 0
                       then Some (Inl \<lparr>line = 463, code = 0\<rparr>, leave result s7)
                       else
                         let (code, s8) = glGetError b s7
                         in if code \<noteq> GL_NO_ERROR
                            then Some (Inl \<lparr>line = 469, code = uint code\<rparr>, leave result s8)
                            else
                              let (returned, result') = object_move result
                              in Some (Inr returned, leave result' s8)))"

subsection \<open>Binding points\<close>

text \<open>
  Modelled from the spec: the binding points of the backend, which is not part of the
  repository. A binding point is ``a global slot in backend state that must hold a
  resource's identifier for that resource to be the target of subsequent operations'';
  the identifier 0 is the unbound state. Each bind call stores its identifier in the
  slot of its target, no other call of the module changes a slot, and a session starts
  with every slot unbound.
\<close>

datatype binding_point =
    BufferBinding GLenum
  | TextureBinding GLenum
  | FramebufferBinding GLenum

definition rebind :: "gl_call \<Rightarrow> (binding_point \<Rightarrow> GLuint) \<Rightarrow> binding_point \<Rightarrow> GLuint" where
  "rebind c m =
     (case c of
        BindBuffer t h \<Rightarrow> m(BufferBinding t := h)
      | BindTexture t h \<Rightarrow> m(TextureBinding t := h)
      | BindFramebuffer t h \<Rightarrow> m(FramebufferBinding t := h)
      | _ \<Rightarrow> m)"

definition bindings :: "gl_log \<Rightarrow> binding_point \<Rightarrow> GLuint" where
  "bindings s = fold rebind (calls s) (\<lambda>_. 0)"

text \<open>Whether a call is a bind call on a given binding point.\<close>

definition binds :: "binding_point \<Rightarrow> gl_call \<Rightarrow> bool" where
  "binds p c =
     (case c of
        BindBuffer t h \<Rightarrow> p = BufferBinding t
      | BindTexture t h \<Rightarrow> p = TextureBinding t
      | BindFramebuffer t h \<Rightarrow> p = FramebufferBinding t
      | _ \<Rightarrow> False)"

text \<open>
  What an invocation that took the log from \<open>s\<close> to \<open>s'\<close> and returned \<open>r\<close> has done
  to the binding point \<open>q\<close>: if it made a bind call on \<open>q\<close> at all, the binding point
  is unbound afterwards and every other binding point is as before; if it made none,
  all binding points are as before; and it has made such a call whenever it succeeded.
\<close>

definition leaves_unbound :: "binding_point \<Rightarrow> object expected \<Rightarrow> gl_log \<Rightarrow> gl_log \<Rightarrow> bool" where
  "leaves_unbound q r s s' \<longleftrightarrow>
     (\<exists>evs. s' = s @ evs \<and>
        bindings s' = (if \<exists>c \<in> set (calls evs). binds q c then (bindings s)(q := 0)
                       else bindings s) \<and>
        (isl r \<or> (\<exists>c \<in> set (calls evs). binds q c)))"

subsection \<open>A scripted backend\<close>

text \<open>A backend for running the functions on concrete inputs: it answers the \<open>k\<close>-th
  call of a session with the \<open>k\<close>-th entry of a script, and with 0 once the script is
  used up.\<close>

definition scripted :: "32 word list \<Rightarrow> backend" where
  "scripted answers s c = (if length s < length answers then answers ! length s else 0)"

section \<open>Properties\<close>

subsection \<open>The error-discarding loop\<close>

text \<open>When the loop returns it has made one or more \<^verbatim>\<open>glGetError\<close> calls and nothing
  else, the last of them answered with \<open>GL_NO_ERROR\<close>; it returns as soon as the backend
  gives that answer.\<close>

lemma discard_errors_log:
  assumes "discard_errors b s = Some s0"
  shows "\<exists>es. s0 = s @ map (Pair GetError) es @ [(GetError, GL_NO_ERROR)]"
proof (rule discard_errors.raw_induct
    [where P = "\<lambda>b s s0. \<exists>es. s0 = s @ map (Pair GetError) es @ [(GetError, GL_NO_ERROR)]",
     OF _ assms])
  fix f :: "backend \<Rightarrow> gl_log \<Rightarrow> gl_log option" and b s s0
  assume IH: "\<And>b s y. f b s = Some y \<Longrightarrow>
                 \<exists>es. y = s @ map (Pair GetError) es @ [(GetError, GL_NO_ERROR)]"
    and step: "(case glGetError b s of
                 (c, s') \<Rightarrow> if c \<noteq> GL_NO_ERROR then f b s' else Some s') = Some s0"
  show "\<exists>es. s0 = s @ map (Pair GetError) es @ [(GetError, GL_NO_ERROR)]"
  proof (cases "b s GetError = GL_NO_ERROR")
    case True
    with step have "s0 = s @ map (Pair GetError) [] @ [(GetError, GL_NO_ERROR)]"
      by (simp add: glGetError_def gl_def)
    then show ?thesis by blast
  next
    case False
    with step have "f b (s @ [(GetError, b s GetError)]) = Some s0"
      by (simp add: glGetError_def gl_def)
    from IH [OF this] obtain es where
      "s0 = (s @ [(GetError, b s GetError)]) @ map (Pair GetError) es @ [(GetError, GL_NO_ERROR)]"
      by blast
    then have "s0 = s @ map (Pair GetError) (b s GetError # es) @ [(GetError, GL_NO_ERROR)]"
      by simp
    then show ?thesis by blast
  qed
qed

lemma discard_errors_clean:
  "b s GetError = GL_NO_ERROR \<Longrightarrow> discard_errors b s = Some (s @ [(GetError, GL_NO_ERROR)])"
  by (subst discard_errors.simps) (simp add: glGetError_def gl_def)

text \<open>The loop returns when the backend, asked over and over, reports finitely many
  errors and then none: it has then asked once per error and once more.\<close>

lemma discard_errors_returns:
  assumes "\<forall>k < length es. b (s @ map (Pair GetError) (take k es)) GetError = es ! k"
    and "GL_NO_ERROR \<notin> set es"
    and "b (s @ map (Pair GetError) es) GetError = GL_NO_ERROR"
  shows "discard_errors b s = Some (s @ map (Pair GetError) es @ [(GetError, GL_NO_ERROR)])"
  using assms
proof (induction es arbitrary: s)
  case Nil
  then show ?case by (simp add: discard_errors_clean)
next
  case (Cons e es)
  from Cons.prems(1) have e: "b s GetError = e"
    by fastforce
  from Cons.prems(2) have ne: "e \<noteq> GL_NO_ERROR"
    by auto
  have "discard_errors b (s @ [(GetError, e)]) =
          Some ((s @ [(GetError, e)]) @ map (Pair GetError) es @ [(GetError, GL_NO_ERROR)])"
  proof (rule Cons.IH)
    show "\<forall>k<length es. b ((s @ [(GetError, e)]) @ map (Pair GetError) (take k es)) GetError
            = es ! k"
    proof (intro allI impI)
      fix k assume "k < length es"
      then have "Suc k < length (e # es)" by simp
      with Cons.prems(1) have
        "b (s @ map (Pair GetError) (take (Suc k) (e # es))) GetError = (e # es) ! Suc k"
        by blast
      then show "b ((s @ [(GetError, e)]) @ map (Pair GetError) (take k es)) GetError = es ! k"
        by simp
    qed
    show "GL_NO_ERROR \<notin> set es"
      using Cons.prems(2) by simp
    show "b ((s @ [(GetError, e)]) @ map (Pair GetError) es) GetError = GL_NO_ERROR"
      using Cons.prems(3) by simp
  qed
  with e ne show ?case
    by (subst discard_errors.simps) (simp add: glGetError_def gl_def)
qed

subsection \<open>The size check of the buffer\<close>

lemma sint_of_nat_64:
  "sint (of_nat n :: 64 word) = signed_take_bit 63 (int n)"
  using sint_sbintrunc' [where 'a = 64, of "int n"] by simp

lemma sint_of_nat_small:
  assumes "n < 2 ^ 63"
  shows "sint (of_nat n :: 64 word) = int n"
proof -
  have "signed_take_bit 63 (int n) = int n"
    using assms by (intro signed_take_bit_int_eq_self) simp_all
  then show ?thesis by (simp only: sint_of_nat_64)
qed

lemma sint_of_nat_big:
  assumes "2 ^ 63 \<le> n" "n < 2 ^ 64"
  shows "sint (of_nat n :: 64 word) < 0"
proof -
  have "signed_take_bit 63 (int n) \<le> int n - 2 ^ Suc 63"
    using assms(1) by (intro signed_take_bit_int_less_eq) simp
  moreover have "int n - 2 ^ Suc 63 < 0"
    using assms(2) by simp
  ultimately have "signed_take_bit 63 (int n) < 0" by linarith
  then show ?thesis by (simp only: sint_of_nat_64)
qed

lemma size_check_fails:
  fixes n :: nat
  assumes "n = 0 \<or> 2 ^ 63 \<le> n"
  shows "(of_nat n :: 64 word) \<le>s 0 \<or> unat (of_nat n :: 64 word) \<noteq> n"
proof (cases "n < 2 ^ 64")
  case True
  show ?thesis
  proof (cases "n = 0")
    case True
    then show ?thesis by simp
  next
    case False
    with assms have "2 ^ 63 \<le> n" by simp
    from sint_of_nat_big [OF this True] show ?thesis
      by (simp add: word_sle_eq)
  qed
next
  case False
  have "unat (of_nat n :: 64 word) < 2 ^ 64"
    using unsigned_less [of "of_nat n :: 64 word"] by simp
  with False show ?thesis by simp
qed

lemma size_check_passes:
  fixes n :: nat
  assumes "0 < n" "n < 2 ^ 63"
  shows "\<not> ((of_nat n :: 64 word) \<le>s 0 \<or> unat (of_nat n :: 64 word) \<noteq> n)"
proof -
  have "sint (of_nat n :: 64 word) = int n"
    using assms(2) by (rule sint_of_nat_small)
  moreover have "unat (of_nat n :: 64 word) = n"
    using assms(2) by (simp add: unat_of_nat)
  ultimately show ?thesis using assms(1) by (simp add: word_sle_eq)
qed

lemma initialize_buffer_rejects:
  assumes "discard_errors b s = Some s0"
    and "length (bytes parameters) = 0 \<or> 2 ^ 63 \<le> length (bytes parameters)"
  shows "initialize_buffer b parameters s = Some (Inl \<lparr>line = 125, code = 0\<rparr>, s0)"
  using size_check_fails [OF assms(2)] assms(1)
  by (simp add: initialize_buffer_def Let_def)

lemma discard_errors_scripted_nil:
  "discard_errors (scripted []) s = Some (s @ [(GetError, 0)])"
  using discard_errors_clean [of "scripted []" s]
  by (simp add: scripted_def GL_NO_ERROR_def)

text \<open>
  \<^bold>\<open>C6.\<close> A byte span whose length does not fit \<^verbatim>\<open>GLsizeiptr\<close> (64 bits, signed: the
  length is \<open>2\<^sup>6\<^sup>3\<close> or more) makes buffer initialization return the error of line 125
  with code 0, provided the error-discarding loop at its start returns. The calls it
  has made by then are \<^verbatim>\<open>glGetError\<close> calls only: no \<^verbatim>\<open>glGenBuffers\<close>.
\<close>

theorem buffer_oversized_span_rejected:
  assumes "discard_errors b s \<noteq> None"
    and "2 ^ 63 \<le> length (bytes parameters)"
  shows "\<exists>es. initialize_buffer b parameters s =
           Some (Inl \<lparr>line = 125, code = 0\<rparr>, s @ map (Pair GetError) es)"
proof -
  from assms(1) obtain s0 where s0: "discard_errors b s = Some s0"
    by blast
  from discard_errors_log [OF s0] obtain es where
    es: "s0 = s @ map (Pair GetError) (es @ [GL_NO_ERROR])"
    by auto
  have "initialize_buffer b parameters s = Some (Inl \<lparr>line = 125, code = 0\<rparr>, s0)"
    using assms(2) by (intro initialize_buffer_rejects [OF s0]) simp
  then show ?thesis
    unfolding es by blast
qed

theorem buffer_oversized_span_rejected_witness:
  "discard_errors (scripted []) [] \<noteq> None \<and>
   2 ^ 63 \<le> length (bytes \<lparr>type = 0x8892, usage = 0x88E4, bytes = replicate (2 ^ 63) 0\<rparr>) \<and>
   (\<exists>es. initialize_buffer (scripted [])
          \<lparr>type = 0x8892, usage = 0x88E4, bytes = replicate (2 ^ 63) 0\<rparr> [] =
        Some (Inl \<lparr>line = 125, code = 0\<rparr>, map (Pair GetError) es))"
proof -
  have h1: "discard_errors (scripted []) [] \<noteq> None"
    by (simp add: discard_errors_scripted_nil)
  have h2: "2 ^ 63 \<le> length (bytes \<lparr>type = 0x8892, usage = 0x88E4, bytes = replicate (2 ^ 63) 0\<rparr>)"
    by simp
  from buffer_oversized_span_rejected [OF h1 h2] h1 h2 show ?thesis
    by simp
qed

text \<open>
  \<^bold>\<open>C10.\<close> An empty byte span is rejected in the same way, by the test \<^verbatim>\<open>size <= 0\<close>:
  buffer initialization returns the error of line 125 with code 0 and has made no call
  but \<^verbatim>\<open>glGetError\<close>, provided the error-discarding loop returns.
\<close>

theorem buffer_empty_span_rejected:
  assumes "discard_errors b s \<noteq> None"
    and "bytes parameters = []"
  shows "\<exists>es. initialize_buffer b parameters s =
           Some (Inl \<lparr>line = 125, code = 0\<rparr>, s @ map (Pair GetError) es)"
proof -
  from assms(1) obtain s0 where s0: "discard_errors b s = Some s0"
    by blast
  from discard_errors_log [OF s0] obtain es where
    es: "s0 = s @ map (Pair GetError) (es @ [GL_NO_ERROR])"
    by auto
  have "initialize_buffer b parameters s = Some (Inl \<lparr>line = 125, code = 0\<rparr>, s0)"
    using assms(2) by (intro initialize_buffer_rejects [OF s0]) simp
  then show ?thesis
    unfolding es by blast
qed

theorem buffer_empty_span_rejected_witness:
  "discard_errors (scripted []) [] \<noteq> None \<and>
   bytes \<lparr>type = 0x8892, usage = 0x88E4, bytes = []\<rparr> = [] \<and>
   initialize_buffer (scripted []) \<lparr>type = 0x8892, usage = 0x88E4, bytes = []\<rparr> [] =
     Some (Inl \<lparr>line = 125, code = 0\<rparr>, [(GetError, 0)])"
proof -
  have h1: "discard_errors (scripted []) [] \<noteq> None"
    by (simp add: discard_errors_scripted_nil)
  have h2: "bytes \<lparr>type = 0x8892, usage = 0x88E4, bytes = []\<rparr> = []"
    by simp
  from buffer_empty_span_rejected [OF h1 h2] obtain es where
    es: "initialize_buffer (scripted []) \<lparr>type = 0x8892, usage = 0x88E4, bytes = []\<rparr> [] =
          Some (Inl \<lparr>line = 125, code = 0\<rparr>, [] @ map (Pair GetError) es)"
    by blast
  have "initialize_buffer (scripted []) \<lparr>type = 0x8892, usage = 0x88E4, bytes = []\<rparr> [] =
          Some (Inl \<lparr>line = 125, code = 0\<rparr>, [(GetError, 0)])"
    by (simp add: initialize_buffer_def discard_errors_scripted_nil)
  with es h1 h2 show ?thesis
    by simp
qed

subsection \<open>Handles\<close>

lemma calls_gl_void: "calls (gl_void b c s) = calls s @ [c]"
  by (simp add: calls_def gl_void_def gl_def)

lemma object_destroy_gl:
  "calls (object_destroy (\<lambda>h. gl_void b (mk h)) x s) =
     calls s @ (if handle x = 0 then [] else [mk (handle x)])"
  by (simp add: object_destroy_def calls_gl_void)

lemma deleter_forms:
  "buffer_deleter b = (\<lambda>h. gl_void b (DeleteBuffers h))"
  "texture_deleter b = (\<lambda>h. gl_void b (DeleteTextures h))"
  "framebuffer_deleter b = (\<lambda>h. gl_void b (DeleteFramebuffers h))"
  "shader_deleter b = (\<lambda>h. gl_void b (DeleteShader h))"
  "program_deleter b = (\<lambda>h. gl_void b (DeleteProgram h))"
  by (auto simp: fun_eq_iff buffer_deleter_def texture_deleter_def framebuffer_deleter_def
      shader_deleter_def program_deleter_def)

text \<open>
  \<^bold>\<open>C1.\<close> Destroying a handle object of any of the five kinds makes exactly one call,
  the deletion call of its kind with the identifier it holds, when that identifier is
  not 0, and no call when it is 0. Move construction gives the new object the
  identifier and leaves 0 in the source, so that destroying both, in either order,
  runs the deleter exactly as destroying the original alone would have: once for an
  identifier that is not 0.
\<close>

theorem handle_released_exactly_once:
  "calls (object_destroy (buffer_deleter b) x s) =
     calls s @ (if handle x = 0 then [] else [DeleteBuffers (handle x)]) \<and>
   calls (object_destroy (texture_deleter b) x s) =
     calls s @ (if handle x = 0 then [] else [DeleteTextures (handle x)]) \<and>
   calls (object_destroy (framebuffer_deleter b) x s) =
     calls s @ (if handle x = 0 then [] else [DeleteFramebuffers (handle x)]) \<and>
   calls (object_destroy (shader_deleter b) x s) =
     calls s @ (if handle x = 0 then [] else [DeleteShader (handle x)]) \<and>
   calls (object_destroy (program_deleter b) x s) =
     calls s @ (if handle x = 0 then [] else [DeleteProgram (handle x)]) \<and>
   handle (fst (object_move x)) = handle x \<and>
   handle (snd (object_move x)) = 0 \<and>
   object_destroy D (snd (object_move x)) (object_destroy D (fst (object_move x)) t) =
     object_destroy D x t \<and>
   object_destroy D (fst (object_move x)) (object_destroy D (snd (object_move x)) t) =
     object_destroy D x t"
  by (simp add: deleter_forms object_destroy_gl) (simp add: object_destroy_def object_move_def)

theorem handle_released_exactly_once_witness:
  "calls (object_destroy (buffer_deleter (scripted [])) \<lparr>handle = 7\<rparr> []) = [DeleteBuffers 7] \<and>
   calls (object_destroy (buffer_deleter (scripted [])) \<lparr>handle = 0\<rparr> []) = [] \<and>
   calls (object_destroy (shader_deleter (scripted [])) (snd (object_move \<lparr>handle = 7\<rparr>))
           (object_destroy (shader_deleter (scripted [])) (fst (object_move \<lparr>handle = 7\<rparr>)) []))
     = [DeleteShader 7]"
  using handle_released_exactly_once [of "scripted []" "\<lparr>handle = 7\<rparr>" "[]" "shader_deleter (scripted [])" "[]"]
    handle_released_exactly_once [of "scripted []" "\<lparr>handle = 0\<rparr>" "[]" "shader_deleter (scripted [])" "[]"]
  by (simp add: calls_def)

text \<open>
  \<^bold>\<open>C5.\<close> The statement \<^verbatim>\<open>a = std::move(c)\<close>. For two different objects, \<open>a\<close>
  ends with the identifier of \<open>c\<close>, \<open>c\<close> ends with 0, and the identifier \<open>a\<close> held goes
  to the parameter and is released by its destruction: one deletion call when it is not
  0, none when it is 0. When \<open>a\<close> and \<open>c\<close> are the same object the store is left as it
  was and nothing is released: the object keeps its identifier. No other object changes.
\<close>

theorem move_assign_effect:
  "fst (move_assign D a c m s) =
     (if a = c then m
      else m(c := (m c)\<lparr>handle := 0\<rparr>, a := (m a)\<lparr>handle := handle (m c)\<rparr>)) \<and>
   snd (move_assign D a c m s) = (if a = c then s else object_destroy D (m a) s) \<and>
   calls (snd (move_assign (\<lambda>h. gl_void b (mk h)) a c m t)) =
     calls t @ (if a \<noteq> c \<and> handle (m a) \<noteq> 0 then [mk (handle (m a))] else [])"
  by (auto simp: move_assign_def object_move_def object_assign_body_def object_destroy_def
      calls_gl_void fun_eq_iff)

theorem move_assign_effect_witness:
  "handle (fst (move_assign (buffer_deleter (scripted [])) 0 1
                  ((\<lambda>_. \<lparr>handle = 0\<rparr>)(0 := \<lparr>handle = 5\<rparr>, 1 := \<lparr>handle = 9\<rparr>)) []) 0) = 9 \<and>
   handle (fst (move_assign (buffer_deleter (scripted [])) 0 1
                  ((\<lambda>_. \<lparr>handle = 0\<rparr>)(0 := \<lparr>handle = 5\<rparr>, 1 := \<lparr>handle = 9\<rparr>)) []) 1) = 0 \<and>
   calls (snd (move_assign (buffer_deleter (scripted [])) 0 1
                  ((\<lambda>_. \<lparr>handle = 0\<rparr>)(0 := \<lparr>handle = 5\<rparr>, 1 := \<lparr>handle = 9\<rparr>)) [])) =
     [DeleteBuffers 5]"
  using move_assign_effect [of "buffer_deleter (scripted [])" 0 1
      "(\<lambda>_. \<lparr>handle = 0\<rparr>)(0 := \<lparr>handle = 5\<rparr>, 1 := \<lparr>handle = 9\<rparr>)" "[]"
      "scripted []" DeleteBuffers "[]"]
  by (simp add: deleter_forms calls_def object_destroy_def gl_void_def gl_def)

text \<open>Self-assignment of an object holding the identifier 5: no deletion call is made,
  and the object still holds 5.\<close>

theorem move_assign_self_counterexample:
  "handle ((\<lambda>_. \<lparr>handle = 5\<rparr>) (0 :: addr)) \<noteq> 0 \<and>
   calls (snd (move_assign (buffer_deleter (scripted [])) 0 0 (\<lambda>_. \<lparr>handle = 5\<rparr>) [])) = [] \<and>
   handle (fst (move_assign (buffer_deleter (scripted [])) 0 0 (\<lambda>_. \<lparr>handle = 5\<rparr>) []) 0) = 5"
  by (simp add: move_assign_def object_move_def object_assign_body_def object_destroy_def
      calls_def)

subsection \<open>Framebuffer\<close>

lemmas unit_defs =
  gl_def gl_void_def glGetError_def object_new_def object_destroy_def object_move_def

lemma discard_errors_scripted_0:
  "discard_errors (scripted (0 # answers)) [] = Some [(GetError, 0)]"
  using discard_errors_clean [of "scripted (0 # answers)" "[]"]
  by (simp add: scripted_def GL_NO_ERROR_def)

lemmas gl_consts =
  GL_NO_ERROR_def GL_FALSE_def GL_TEXTURE_2D_def GL_UNSIGNED_BYTE_def GL_RGBA_def GL_RGBA8_def
  GL_FRAGMENT_SHADER_def GL_VERTEX_SHADER_def GL_COMPILE_STATUS_def GL_LINK_STATUS_def
  GL_FRAMEBUFFER_COMPLETE_def GL_COLOR_ATTACHMENT0_def GL_DEPTH_ATTACHMENT_def
  GL_FRAMEBUFFER_def





lemma framebuffer_incomplete_run:
  "initialize_framebuffer (scripted [0, 3, 0, 0, 0, 0x8CD6])
     \<lparr>render_target = 4, depth_buffer = 0\<rparr> [] =
   Some (Inl \<lparr>line = 329, code = 0x8CD6\<rparr>,
     [] @ [(GetError, 0), (GenFramebuffers, 3), (GetError, 0),
      (BindFramebuffer GL_FRAMEBUFFER 3, 0),
      (FramebufferTexture2D GL_FRAMEBUFFER GL_COLOR_ATTACHMENT0 GL_TEXTURE_2D 4 0, 0),
      (CheckFramebufferStatus GL_FRAMEBUFFER, 0x8CD6),
      (BindFramebuffer GL_FRAMEBUFFER 0, 0),
      (DeleteFramebuffers 3, 0)])"
  by (simp add: initialize_framebuffer_def discard_errors_scripted_0 unit_defs
      framebuffer_deleter_def Let_def scripted_def gl_consts)


text \<open>
  \<^bold>\<open>C7.\<close> With a render target and a depth buffer, both 0, framebuffer
  initialization is not refused: once the error-discarding loop has returned its next
  call is \<^verbatim>\<open>glGenFramebuffers\<close>. If the backend then reports an error the result is
  that error (line 301); otherwise the framebuffer is bound and, nothing being attached,
  the next call is \<^verbatim>\<open>glCheckFramebufferStatus\<close>, and every failure returned carries
  what the backend answered: the status (line 329) or the error flag (line 334). The
  function of \<^verbatim>\<open>src/rose.opengl.kernel.ccm\<close>, whose parameters hold a render target
  only, does refuse a render target of 0: it returns the error of line 323 with code 0
  and makes no call after the error-discarding loop.
\<close>

theorem framebuffer_absent_attachments:
  assumes "discard_errors b s = Some s0"
    and "render_target parameters = 0" and "depth_buffer parameters = 0"
    and "kernel_render_target kernel_parameters = 0"
  shows "(\<exists>r h c rest.
            initialize_framebuffer b parameters s =
              Some (r, s0 @ [(GenFramebuffers, h), (GetError, c)] @ rest) \<and>
            (if c \<noteq> GL_NO_ERROR then r = Inl \<lparr>line = 301, code = uint c\<rparr>
             else \<exists>st more.
                    calls rest = BindFramebuffer GL_FRAMEBUFFER h #
                                 CheckFramebufferStatus GL_FRAMEBUFFER # more \<and>
                    (CheckFramebufferStatus GL_FRAMEBUFFER, st) \<in> set rest \<and>
                    (case r of
                       Inl e \<Rightarrow>
                         st \<noteq> GL_FRAMEBUFFER_COMPLETE \<and> e = \<lparr>line = 329, code = uint st\<rparr> \<or>
                         (\<exists>c'. c' \<noteq> GL_NO_ERROR \<and> (GetError, c') \<in> set rest \<and>
                               e = \<lparr>line = 334, code = uint c'\<rparr>)
                     | Inr x \<Rightarrow> st = GL_FRAMEBUFFER_COMPLETE \<and> handle x = h))) \<and>
         kernel_initialize_framebuffer b kernel_parameters s =
           Some (Inl \<lparr>line = 323, code = 0\<rparr>, s0)"
proof
  let ?s1 = "s0 @ [(GenFramebuffers, b s0 GenFramebuffers)]"
  let ?h = "b s0 GenFramebuffers"
  let ?c = "b ?s1 GetError"
  let ?s2 = "?s1 @ [(GetError, ?c)]"
  show "\<exists>r h c rest.
            initialize_framebuffer b parameters s =
              Some (r, s0 @ [(GenFramebuffers, h), (GetError, c)] @ rest) \<and>
            (if c \<noteq> GL_NO_ERROR then r = Inl \<lparr>line = 301, code = uint c\<rparr>
             else \<exists>st more.
                    calls rest = BindFramebuffer GL_FRAMEBUFFER h #
                                 CheckFramebufferStatus GL_FRAMEBUFFER # more \<and>
                    (CheckFramebufferStatus GL_FRAMEBUFFER, st) \<in> set rest \<and>
                    (case r of
                       Inl e \<Rightarrow>
                         st \<noteq> GL_FRAMEBUFFER_COMPLETE \<and> e = \<lparr>line = 329, code = uint st\<rparr> \<or>
                         (\<exists>c'. c' \<noteq> GL_NO_ERROR \<and> (GetError, c') \<in> set rest \<and>
                               e = \<lparr>line = 334, code = uint c'\<rparr>)
                     | Inr x \<Rightarrow> st = GL_FRAMEBUFFER_COMPLETE \<and> handle x = h))"
    using assms(1-3)
    by (auto simp: initialize_framebuffer_def unit_defs framebuffer_deleter_def Let_def
        calls_def)
next
  show "kernel_initialize_framebuffer b kernel_parameters s =
           Some (Inl \<lparr>line = 323, code = 0\<rparr>, s0)"
    using assms(1,4) by (simp add: kernel_initialize_framebuffer_def)
qed

theorem framebuffer_absent_attachments_witness:
  "discard_errors (scripted [0, 3, 0, 0, 0x8CD7]) [] = Some [(GetError, 0)] \<and>
   render_target \<lparr>render_target = 0, depth_buffer = 0\<rparr> = 0 \<and>
   depth_buffer \<lparr>render_target = 0, depth_buffer = 0\<rparr> = 0 \<and>
   kernel_render_target \<lparr>kernel_render_target = 0\<rparr> = 0 \<and>
   initialize_framebuffer (scripted [0, 3, 0, 0, 0x8CD7])
       \<lparr>render_target = 0, depth_buffer = 0\<rparr> [] =
     Some (Inl \<lparr>line = 329, code = 0x8CD7\<rparr>,
       [(GetError, 0), (GenFramebuffers, 3), (GetError, 0),
        (BindFramebuffer GL_FRAMEBUFFER 3, 0),
        (CheckFramebufferStatus GL_FRAMEBUFFER, 0x8CD7),
        (BindFramebuffer GL_FRAMEBUFFER 0, 0),
        (DeleteFramebuffers 3, 0)]) \<and>
   kernel_initialize_framebuffer (scripted [0, 3, 0, 0, 0x8CD7])
       \<lparr>kernel_render_target = 0\<rparr> [] =
     Some (Inl \<lparr>line = 323, code = 0\<rparr>, [(GetError, 0)])"
proof -
  have h1: "discard_errors (scripted [0, 3, 0, 0, 0x8CD7]) [] = Some [(GetError, 0)]"
    by (rule discard_errors_scripted_0)
  have h2: "render_target \<lparr>render_target = 0, depth_buffer = 0\<rparr> = 0"
    and h3: "depth_buffer \<lparr>render_target = 0, depth_buffer = 0\<rparr> = 0"
    and h4: "kernel_render_target \<lparr>kernel_render_target = 0\<rparr> = 0"
    by simp_all
  have run: "initialize_framebuffer (scripted [0, 3, 0, 0, 0x8CD7])
       \<lparr>render_target = 0, depth_buffer = 0\<rparr> [] =
     Some (Inl \<lparr>line = 329, code = 0x8CD7\<rparr>,
       [(GetError, 0), (GenFramebuffers, 3), (GetError, 0),
        (BindFramebuffer GL_FRAMEBUFFER 3, 0),
        (CheckFramebufferStatus GL_FRAMEBUFFER, 0x8CD7),
        (BindFramebuffer GL_FRAMEBUFFER 0, 0),
        (DeleteFramebuffers 3, 0)])"
    by (simp add: initialize_framebuffer_def h1 unit_defs framebuffer_deleter_def Let_def
        scripted_def gl_consts)
  from framebuffer_absent_attachments [OF h1 h2 h3 h4] h1 run show ?thesis
    by simp
qed

text \<open>The function of \<^verbatim>\<open>src/rose.opengl.kernel.ccm\<close> on a render target of 0, with a
  backend that reports no error: a failure with code 0, and no \<^verbatim>\<open>glGenFramebuffers\<close>.\<close>

theorem kernel_framebuffer_rejects_zero_target:
  "kernel_initialize_framebuffer (scripted []) \<lparr>kernel_render_target = 0\<rparr> [] =
     Some (Inl \<lparr>line = 323, code = 0\<rparr>, [(GetError, 0)])"
  by (simp add: kernel_initialize_framebuffer_def discard_errors_scripted_nil)

subsection \<open>Shader and program\<close>

text \<open>A shader that was initialized holds an identifier other than 0, and the only
  \<^verbatim>\<open>glCreateShader\<close> call of its initialization is the one for its own type.\<close>

lemma initialize_shader_success:
  assumes "initialize_shader b p s = Some (Inr x, s')"
  shows "handle x \<noteq> 0"
proof -
  from assms obtain s0 where s0: "discard_errors b s = Some s0"
    by (auto simp: initialize_shader_def split: option.splits)
  from assms show ?thesis
    unfolding initialize_shader_def s0
    by (auto simp: unit_defs shader_deleter_def Let_def split: if_splits)
qed

lemma initialize_shader_calls:
  assumes "initialize_shader b p s = Some (r, s')"
  shows "\<exists>evs. s' = s @ evs \<and> (\<forall>t. CreateShader t \<in> set (calls evs) \<longrightarrow> t = shader_type p)"
proof -
  from assms obtain s0 where s0: "discard_errors b s = Some s0"
    by (auto simp: initialize_shader_def split: option.splits)
  from discard_errors_log [OF s0] obtain es where
    es: "s0 = s @ map (Pair GetError) (es @ [GL_NO_ERROR])"
    by auto
  from assms show ?thesis
    unfolding initialize_shader_def s0 es
    by (auto simp: unit_defs shader_deleter_def Let_def calls_def split: if_splits)
qed

lemma discard_errors_scripted_at:
  "length s < length answers \<Longrightarrow> answers ! length s = 0 \<Longrightarrow>
   discard_errors (scripted answers) s = Some (s @ [(GetError, 0)])"
  using discard_errors_clean [of "scripted answers" s]
  by (simp add: scripted_def GL_NO_ERROR_def)

text \<open>
  \<^bold>\<open>C2.\<close> Program initialization, in terms of the two shader initializations it is
  built from. (1) If that of the vertex shader fails, the program's result is that very
  error and its log the log of that initialization: nothing is called after it, and
  no call made is \<^verbatim>\<open>glCreateShader(GL_FRAGMENT_SHADER)\<close>. (2) If the vertex shader is
  initialized and the fragment shader fails, the result is the fragment shader's error,
  and the one call made after the fragment shader's initialization is
  \<^verbatim>\<open>glDeleteShader\<close> on the vertex shader's identifier, which is not 0.
\<close>

theorem program_forwards_shader_failure:
  "(initialize_shader b \<lparr>shader_type = GL_VERTEX_SHADER,
                          shader_code = vertex_shader (codes parameters)\<rparr> s = Some (Inl e, s1)
      \<longrightarrow> initialize_program b parameters s = Some (Inl e, s1) \<and>
          (\<exists>evs. s1 = s @ evs \<and> CreateShader GL_FRAGMENT_SHADER \<notin> set (calls evs))) \<and>
   (initialize_shader b \<lparr>shader_type = GL_VERTEX_SHADER,
                          shader_code = vertex_shader (codes parameters)\<rparr> s = Some (Inr vs, s1) \<and>
    initialize_shader b \<lparr>shader_type = GL_FRAGMENT_SHADER,
                          shader_code = fragment_shader (codes parameters)\<rparr> s1 = Some (Inl e, s2)
      \<longrightarrow> handle vs \<noteq> 0 \<and>
          (\<exists>a. initialize_program b parameters s =
                 Some (Inl e, s2 @ [(DeleteShader (handle vs), a)])))"
proof (intro conjI impI)
  assume v: "initialize_shader b \<lparr>shader_type = GL_VERTEX_SHADER,
                          shader_code = vertex_shader (codes parameters)\<rparr> s = Some (Inl e, s1)"
  then show "initialize_program b parameters s = Some (Inl e, s1)"
    by (simp add: initialize_program_def)
  from initialize_shader_calls [OF v] obtain evs where
    evs: "s1 = s @ evs" "\<forall>t. CreateShader t \<in> set (calls evs) \<longrightarrow> t = GL_VERTEX_SHADER"
    by auto
  have "GL_FRAGMENT_SHADER \<noteq> GL_VERTEX_SHADER"
    by (simp add: GL_FRAGMENT_SHADER_def GL_VERTEX_SHADER_def)
  with evs show "\<exists>evs. s1 = s @ evs \<and> CreateShader GL_FRAGMENT_SHADER \<notin> set (calls evs)"
    by blast
next
  assume vf: "initialize_shader b \<lparr>shader_type = GL_VERTEX_SHADER,
                          shader_code = vertex_shader (codes parameters)\<rparr> s = Some (Inr vs, s1) \<and>
    initialize_shader b \<lparr>shader_type = GL_FRAGMENT_SHADER,
                          shader_code = fragment_shader (codes parameters)\<rparr> s1 = Some (Inl e, s2)"
  then show nz: "handle vs \<noteq> 0"
    by (blast dest: initialize_shader_success)
  from vf nz show "\<exists>a. initialize_program b parameters s =
                 Some (Inl e, s2 @ [(DeleteShader (handle vs), a)])"
    by (simp add: initialize_program_def unit_defs shader_deleter_def)
qed

lemma vertex_failure_run:
  "initialize_shader (scripted [0, 5, 0, 0, 0])
     \<lparr>shader_type = GL_VERTEX_SHADER, shader_code = ''v''\<rparr> [] =
   Some (Inl \<lparr>line = 388, code = 0\<rparr>,
     [] @ [(GetError, 0), (CreateShader GL_VERTEX_SHADER, 5), (ShaderSource 5 ''v'', 0),
      (CompileShader 5, 0), (GetShaderiv 5 GL_COMPILE_STATUS, 0), (DeleteShader 5, 0)])"
  by (simp add: initialize_shader_def discard_errors_scripted_0 unit_defs shader_deleter_def
      Let_def scripted_def gl_consts)

lemma vertex_success_run:
  "initialize_shader (scripted [0, 5, 0, 0, 1, 0, 0, 6, 0, 0, 0])
     \<lparr>shader_type = GL_VERTEX_SHADER, shader_code = ''v''\<rparr> [] =
   Some (Inr \<lparr>handle = 5\<rparr>,
     [(GetError, 0), (CreateShader GL_VERTEX_SHADER, 5), (ShaderSource 5 ''v'', 0),
      (CompileShader 5, 0), (GetShaderiv 5 GL_COMPILE_STATUS, 1), (GetError, 0)])"
  by (simp add: initialize_shader_def discard_errors_scripted_0 unit_defs shader_deleter_def
      Let_def scripted_def gl_consts)

lemma fragment_failure_run:
  "initialize_shader (scripted [0, 5, 0, 0, 1, 0, 0, 6, 0, 0, 0])
     \<lparr>shader_type = GL_FRAGMENT_SHADER, shader_code = ''f''\<rparr>
     [(GetError, 0), (CreateShader GL_VERTEX_SHADER, 5), (ShaderSource 5 ''v'', 0),
      (CompileShader 5, 0), (GetShaderiv 5 GL_COMPILE_STATUS, 1), (GetError, 0)] =
   Some (Inl \<lparr>line = 388, code = 0\<rparr>,
     [(GetError, 0), (CreateShader GL_VERTEX_SHADER, 5), (ShaderSource 5 ''v'', 0),
      (CompileShader 5, 0), (GetShaderiv 5 GL_COMPILE_STATUS, 1), (GetError, 0),
      (GetError, 0), (CreateShader GL_FRAGMENT_SHADER, 6), (ShaderSource 6 ''f'', 0),
      (CompileShader 6, 0), (GetShaderiv 6 GL_COMPILE_STATUS, 0), (DeleteShader 6, 0)])"
  by (simp add: initialize_shader_def discard_errors_scripted_at unit_defs shader_deleter_def
      Let_def scripted_def gl_consts)

theorem program_forwards_shader_failure_witness:
  "initialize_shader (scripted [0, 5, 0, 0, 0])
     \<lparr>shader_type = GL_VERTEX_SHADER, shader_code = ''v''\<rparr> [] =
   Some (Inl \<lparr>line = 388, code = 0\<rparr>,
     [(GetError, 0), (CreateShader GL_VERTEX_SHADER, 5), (ShaderSource 5 ''v'', 0),
      (CompileShader 5, 0), (GetShaderiv 5 GL_COMPILE_STATUS, 0), (DeleteShader 5, 0)]) \<and>
   initialize_program (scripted [0, 5, 0, 0, 0])
     \<lparr>codes = \<lparr>vertex_shader = ''v'', fragment_shader = ''f''\<rparr>\<rparr> [] =
   Some (Inl \<lparr>line = 388, code = 0\<rparr>,
     [(GetError, 0), (CreateShader GL_VERTEX_SHADER, 5), (ShaderSource 5 ''v'', 0),
      (CompileShader 5, 0), (GetShaderiv 5 GL_COMPILE_STATUS, 0), (DeleteShader 5, 0)]) \<and>
   (\<exists>a. initialize_program (scripted [0, 5, 0, 0, 1, 0, 0, 6, 0, 0, 0])
     \<lparr>codes = \<lparr>vertex_shader = ''v'', fragment_shader = ''f''\<rparr>\<rparr> [] =
   Some (Inl \<lparr>line = 388, code = 0\<rparr>,
     [(GetError, 0), (CreateShader GL_VERTEX_SHADER, 5), (ShaderSource 5 ''v'', 0),
      (CompileShader 5, 0), (GetShaderiv 5 GL_COMPILE_STATUS, 1), (GetError, 0),
      (GetError, 0), (CreateShader GL_FRAGMENT_SHADER, 6), (ShaderSource 6 ''f'', 0),
      (CompileShader 6, 0), (GetShaderiv 6 GL_COMPILE_STATUS, 0), (DeleteShader 6, 0),
      (DeleteShader 5, a)]))"
proof -
  let ?p = "\<lparr>codes = \<lparr>vertex_shader = ''v'', fragment_shader = ''f''\<rparr>\<rparr>"
  let ?e = "\<lparr>line = 388, code = 0\<rparr>"
  let ?v = "[(GetError, 0), (CreateShader GL_VERTEX_SHADER, 5), (ShaderSource 5 ''v'', 0),
      (CompileShader 5, 0), (GetShaderiv 5 GL_COMPILE_STATUS, 1), (GetError, 0)]"
  let ?f = "[(GetError, 0), (CreateShader GL_FRAGMENT_SHADER, 6), (ShaderSource 6 ''f'', 0),
      (CompileShader 6, 0), (GetShaderiv 6 GL_COMPILE_STATUS, 0), (DeleteShader 6, 0)]"
  have first: "initialize_program (scripted [0, 5, 0, 0, 0]) ?p [] =
      Some (Inl ?e,
        [(GetError, 0), (CreateShader GL_VERTEX_SHADER, 5), (ShaderSource 5 ''v'', 0),
         (CompileShader 5, 0), (GetShaderiv 5 GL_COMPILE_STATUS, 0), (DeleteShader 5, 0)])"
    using program_forwards_shader_failure
      [where b = "scripted [0, 5, 0, 0, 0]" and parameters = ?p and s = "[]" and e = ?e
         and ?s1.0 = "[(GetError, 0), (CreateShader GL_VERTEX_SHADER, 5),
           (ShaderSource 5 ''v'', 0), (CompileShader 5, 0),
           (GetShaderiv 5 GL_COMPILE_STATUS, 0), (DeleteShader 5, 0)]"]
      vertex_failure_run
    by simp
  have second: "\<exists>a. initialize_program (scripted [0, 5, 0, 0, 1, 0, 0, 6, 0, 0, 0]) ?p [] =
      Some (Inl ?e, (?v @ ?f) @ [(DeleteShader (handle \<lparr>handle = 5\<rparr>), a)])"
    using program_forwards_shader_failure
      [where b = "scripted [0, 5, 0, 0, 1, 0, 0, 6, 0, 0, 0]" and parameters = ?p and s = "[]"
         and e = ?e and ?s1.0 = ?v and vs = "\<lparr>handle = 5\<rparr>" and ?s2.0 = "?v @ ?f"]
      vertex_success_run fragment_failure_run
    by simp
  from first second vertex_failure_run show ?thesis
    by simp
qed

text \<open>
  \<^bold>\<open>C9.\<close> When both shaders have been initialized, program initialization returns,
  and the last two calls it makes are \<^verbatim>\<open>glDeleteShader\<close> on the fragment shader's
  identifier and then on the vertex shader's, neither of which is 0; it deletes no
  shader before them. This holds for each of its four outcomes: the failures of lines
  452 (no program object), 463 (link status) and 469 (error flag), and success.
\<close>

theorem program_releases_both_shaders:
  assumes "initialize_shader b \<lparr>shader_type = GL_VERTEX_SHADER,
             shader_code = vertex_shader (codes parameters)\<rparr> s = Some (Inr vs, s1)"
    and "initialize_shader b \<lparr>shader_type = GL_FRAGMENT_SHADER,
             shader_code = fragment_shader (codes parameters)\<rparr> s1 = Some (Inr fs, s2)"
  shows "handle vs \<noteq> 0 \<and> handle fs \<noteq> 0 \<and>
         (\<exists>r mid a1 a2.
            initialize_program b parameters s =
              Some (r, s2 @ mid @ [(DeleteShader (handle fs), a1),
                                   (DeleteShader (handle vs), a2)]) \<and>
            (\<forall>h. DeleteShader h \<notin> set (calls mid)) \<and>
            (case r of Inl e \<Rightarrow> line e \<in> {452, 463, 469} | Inr x \<Rightarrow> handle x \<noteq> 0))"
proof -
  have vs: "handle vs \<noteq> 0" and fs: "handle fs \<noteq> 0"
    using assms by (blast dest: initialize_shader_success)+
  from assms vs fs show ?thesis
    by (auto simp: initialize_program_def unit_defs shader_deleter_def program_deleter_def
        Let_def calls_def)
qed

lemma program_success_run:
  "initialize_program (scripted [0, 5, 0, 0, 1, 0, 0, 6, 0, 0, 1, 0, 7, 0, 0, 0, 1, 0])
     \<lparr>codes = \<lparr>vertex_shader = ''v'', fragment_shader = ''f''\<rparr>\<rparr> [] =
   Some (Inr \<lparr>handle = 7\<rparr>,
     [(GetError, 0), (CreateShader GL_VERTEX_SHADER, 5), (ShaderSource 5 ''v'', 0),
      (CompileShader 5, 0), (GetShaderiv 5 GL_COMPILE_STATUS, 1), (GetError, 0),
      (GetError, 0), (CreateShader GL_FRAGMENT_SHADER, 6), (ShaderSource 6 ''f'', 0),
      (CompileShader 6, 0), (GetShaderiv 6 GL_COMPILE_STATUS, 1), (GetError, 0),
      (CreateProgram, 7), (AttachShader 7 5, 0), (AttachShader 7 6, 0), (LinkProgram 7, 0),
      (GetProgramiv 7 GL_LINK_STATUS, 1), (GetError, 0),
      (DeleteShader 6, 0), (DeleteShader 5, 0)])"
  by (simp add: initialize_program_def initialize_shader_def discard_errors_scripted_at
      unit_defs shader_deleter_def program_deleter_def Let_def scripted_def gl_consts)


lemma program_vertex_run:
  "initialize_shader (scripted [0, 5, 0, 0, 1, 0, 0, 6, 0, 0, 1, 0, 7, 0, 0, 0, 1, 0])
     \<lparr>shader_type = GL_VERTEX_SHADER,
      shader_code = vertex_shader (codes \<lparr>codes = \<lparr>vertex_shader = ''v'', fragment_shader = ''f''\<rparr>\<rparr>)\<rparr>
     [] =
   Some (Inr \<lparr>handle = 5\<rparr>,
     [(GetError, 0), (CreateShader GL_VERTEX_SHADER, 5), (ShaderSource 5 ''v'', 0),
      (CompileShader 5, 0), (GetShaderiv 5 GL_COMPILE_STATUS, 1), (GetError, 0)])"
  by (simp add: initialize_shader_def discard_errors_scripted_0 unit_defs shader_deleter_def
      Let_def scripted_def gl_consts)

lemma program_fragment_run:
  "initialize_shader (scripted [0, 5, 0, 0, 1, 0, 0, 6, 0, 0, 1, 0, 7, 0, 0, 0, 1, 0])
     \<lparr>shader_type = GL_FRAGMENT_SHADER,
      shader_code = fragment_shader (codes \<lparr>codes = \<lparr>vertex_shader = ''v'', fragment_shader = ''f''\<rparr>\<rparr>)\<rparr>
     [(GetError, 0), (CreateShader GL_VERTEX_SHADER, 5), (ShaderSource 5 ''v'', 0),
      (CompileShader 5, 0), (GetShaderiv 5 GL_COMPILE_STATUS, 1), (GetError, 0)] =
   Some (Inr \<lparr>handle = 6\<rparr>,
     [(GetError, 0), (CreateShader GL_VERTEX_SHADER, 5), (ShaderSource 5 ''v'', 0),
      (CompileShader 5, 0), (GetShaderiv 5 GL_COMPILE_STATUS, 1), (GetError, 0),
      (GetError, 0), (CreateShader GL_FRAGMENT_SHADER, 6), (ShaderSource 6 ''f'', 0),
      (CompileShader 6, 0), (GetShaderiv 6 GL_COMPILE_STATUS, 1), (GetError, 0)])"
  by (simp add: initialize_shader_def discard_errors_scripted_at unit_defs shader_deleter_def
      Let_def scripted_def gl_consts)

theorem program_releases_both_shaders_witness:
  "initialize_shader (scripted [0, 5, 0, 0, 1, 0, 0, 6, 0, 0, 1, 0, 7, 0, 0, 0, 1, 0])
     \<lparr>shader_type = GL_VERTEX_SHADER, shader_code = ''v''\<rparr> [] =
   Some (Inr \<lparr>handle = 5\<rparr>,
     [(GetError, 0), (CreateShader GL_VERTEX_SHADER, 5), (ShaderSource 5 ''v'', 0),
      (CompileShader 5, 0), (GetShaderiv 5 GL_COMPILE_STATUS, 1), (GetError, 0)]) \<and>
   initialize_shader (scripted [0, 5, 0, 0, 1, 0, 0, 6, 0, 0, 1, 0, 7, 0, 0, 0, 1, 0])
     \<lparr>shader_type = GL_FRAGMENT_SHADER, shader_code = ''f''\<rparr>
     [(GetError, 0), (CreateShader GL_VERTEX_SHADER, 5), (ShaderSource 5 ''v'', 0),
      (CompileShader 5, 0), (GetShaderiv 5 GL_COMPILE_STATUS, 1), (GetError, 0)] =
   Some (Inr \<lparr>handle = 6\<rparr>,
     [(GetError, 0), (CreateShader GL_VERTEX_SHADER, 5), (ShaderSource 5 ''v'', 0),
      (CompileShader 5, 0), (GetShaderiv 5 GL_COMPILE_STATUS, 1), (GetError, 0),
      (GetError, 0), (CreateShader GL_FRAGMENT_SHADER, 6), (ShaderSource 6 ''f'', 0),
      (CompileShader 6, 0), (GetShaderiv 6 GL_COMPILE_STATUS, 1), (GetError, 0)]) \<and>
   initialize_program (scripted [0, 5, 0, 0, 1, 0, 0, 6, 0, 0, 1, 0, 7, 0, 0, 0, 1, 0])
     \<lparr>codes = \<lparr>vertex_shader = ''v'', fragment_shader = ''f''\<rparr>\<rparr> [] =
   Some (Inr \<lparr>handle = 7\<rparr>,
     [(GetError, 0), (CreateShader GL_VERTEX_SHADER, 5), (ShaderSource 5 ''v'', 0),
      (CompileShader 5, 0), (GetShaderiv 5 GL_COMPILE_STATUS, 1), (GetError, 0),
      (GetError, 0), (CreateShader GL_FRAGMENT_SHADER, 6), (ShaderSource 6 ''f'', 0),
      (CompileShader 6, 0), (GetShaderiv 6 GL_COMPILE_STATUS, 1), (GetError, 0),
      (CreateProgram, 7), (AttachShader 7 5, 0), (AttachShader 7 6, 0), (LinkProgram 7, 0),
      (GetProgramiv 7 GL_LINK_STATUS, 1), (GetError, 0),
      (DeleteShader 6, 0), (DeleteShader 5, 0)]) \<and>
   handle \<lparr>handle = 5\<rparr> \<noteq> 0 \<and> handle \<lparr>handle = 6\<rparr> \<noteq> 0"
  using program_releases_both_shaders [OF program_vertex_run program_fragment_run]
    program_vertex_run program_fragment_run program_success_run
  by simp

subsection \<open>Texture: the walk over the mip levels\<close>

text \<open>Validated extents are small enough for the 32-bit arithmetic of the loop body to
  agree with arithmetic on natural numbers.\<close>

lemma sint_of_nat_32:
  assumes "n < 2 ^ 31"
  shows "sint (of_nat n :: 32 word) = int n"
proof -
  have "signed_take_bit 31 (int n) = int n"
    using assms by (intro signed_take_bit_int_eq_self) simp_all
  moreover have "sint (of_nat n :: 32 word) = signed_take_bit 31 (int n)"
    using sint_sbintrunc' [where 'a = 32, of "int n"] by simp
  ultimately show ?thesis by simp
qed

lemma unat_of_nat_32:
  assumes "n < 2 ^ 32"
  shows "unat (of_nat n :: 32 word) = n"
  using assms by (simp add: unat_of_nat)

lemma extent_product_bound:
  fixes w h :: nat
  assumes "w \<le> 16383" "h \<le> 16383"
  shows "w * h * 4 < 2 ^ 31"
proof -
  have "w * h \<le> 16383 * 16383"
    using assms by (rule mult_le_mono)
  then have "w * h * 4 \<le> 16383 * 16383 * 4"
    by (rule mult_le_mono1)
  also have "\<dots> < (2 :: nat) ^ 31"
    by simp
  finally show ?thesis .
qed

lemma level_size_nat:
  fixes w h :: nat
  assumes "w \<le> 16383" "h \<le> 16383"
  shows "(of_nat w * of_nat h * 4 :: 32 word) = of_nat (w * h * 4)"
  by simp

lemma size_t_of_int_of_nat:
  assumes "n < 2 ^ 31"
  shows "size_t_of_int (of_nat n) = n"
proof -
  have "(scast (of_nat n :: 32 word) :: 64 word) = word_of_int (int n)"
    by (simp only: scast_eq sint_of_nat_32 [OF assms])
  then have "(scast (of_nat n :: 32 word) :: 64 word) = of_nat n"
    by simp
  moreover have "unat (of_nat n :: 64 word) = n"
    using assms by (simp add: unat_of_nat)
  ultimately show ?thesis
    by (simp add: size_t_of_int_def)
qed

lemma int_div_2_of_nat:
  assumes "n < 2 ^ 31"
  shows "int_div (of_nat n) 2 = of_nat (n div 2)"
proof -
  have "sint (2 :: 32 word) = 2" by simp
  moreover have "int n sdiv 2 = int n div 2"
    by (simp add: signed_divide_int_def sgn_if)
  ultimately have "int_div (of_nat n) 2 = word_of_int (int n div 2)"
    by (simp add: int_div_def sint_of_nat_32 [OF assms])
  also have "int n div 2 = int (n div 2)"
    by simp
  finally show ?thesis by simp
qed

lemma std_max_1_of_nat:
  assumes "n < 2 ^ 31"
  shows "std_max 1 (of_nat n) = of_nat (max 1 n)"
proof -
  have "(1 :: 32 word) <s of_nat n \<longleftrightarrow> 1 < n"
    by (simp add: word_sless_alt sint_of_nat_32 [OF assms])
  then show ?thesis
    by (auto simp: std_max_def max_def)
qed

lemma of_nat_32_inj:
  assumes "m < 2 ^ 32" "n < 2 ^ 32" "(of_nat m :: 32 word) = of_nat n"
  shows "m = n"
  using assms by (metis unat_of_nat_32)


lemma calls_simps [simp]:
  "calls [] = []" "calls (e # s) = fst e # calls s" "calls (s @ t) = calls s @ calls t"
  by (simp_all add: calls_def)

lemma texture_loop_done:
  "i = mipmap_count p \<Longrightarrow> texture_loop b i p s = (None, s)"
  by (subst texture_loop.simps) simp

lemma texture_loop_step:
  fixes w h j N :: nat and b :: backend and s :: gl_log and p :: texture_parameters
  assumes "w \<le> 16383" "h \<le> 16383" "j < N" "N \<le> 16383"
    and "width p = of_nat w" "height p = of_nat h" "mipmap_count p = of_nat N"
  defines "c \<equiv> level_call (j, w, h, if w * h * 4 > length (pixels p) then None
                                       else Some (pixels p))"
  defines "s1 \<equiv> s @ [(c, b s c)]"
  defines "e \<equiv> b s1 GetError"
  shows "texture_loop b (of_nat j) p s =
           (if e \<noteq> GL_NO_ERROR then (Some \<lparr>line = 245, code = uint e\<rparr>, s1 @ [(GetError, e)])
            else texture_loop b (of_nat (Suc j))
                   (p\<lparr>pixels := drop (min (w * h * 4) (length (pixels p))) (pixels p),
                      width := of_nat (max 1 (w div 2)),
                      height := of_nat (max 1 (h div 2))\<rparr>) (s1 @ [(GetError, e)]))"
proof -
  have ne: "(of_nat j :: 32 word) \<noteq> mipmap_count p"
    using assms(3,4,7) of_nat_32_inj [of j N] by auto
  have lt: "w * h * 4 < 2 ^ 31"
    using assms(1,2) by (rule extent_product_bound)
  have size: "width p * height p * 4 = (of_nat (w * h * 4) :: 32 word)"
    using assms(5,6) by simp
  have usize: "unat (of_nat (w * h * 4) :: 32 word) = w * h * 4"
    using lt by (intro unat_of_nat_32) simp
  have ssize: "size_t_of_int (of_nat (w * h * 4)) = w * h * 4"
    using lt by (rule size_t_of_int_of_nat)
  have w': "std_max 1 (int_div (width p) 2) = of_nat (max 1 (w div 2))"
    using assms(1,5) by (simp add: int_div_2_of_nat std_max_1_of_nat)
  have h': "std_max 1 (int_div (height p) 2) = of_nat (max 1 (h div 2))"
    using assms(2,6) by (simp add: int_div_2_of_nat std_max_1_of_nat)
  show ?thesis
    apply (subst texture_loop.simps)
    apply (simp only: size usize ssize w' h' ne Let_def)
    apply (simp add: c_def s1_def e_def level_call_def gl_void_def gl_def glGetError_def
        assms(5,6) min.commute add.commute)
    done
qed


lemma texture_loop_walk:
  fixes w h j n N :: nat and b :: backend
  assumes "1 \<le> w" "w \<le> 16383" "1 \<le> h" "h \<le> 16383" "j + n = N" "N \<le> 16383"
    and "width p = of_nat w" "height p = of_nat h" "mipmap_count p = of_nat N"
  shows "texture_loop b (of_nat j) p s = mip_walk b (mip_chain j n w h (pixels p)) s"
  using assms
proof (induction n arbitrary: j w h p s)
  case 0
  then have "of_nat j = mipmap_count p" by simp
  then have "texture_loop b (of_nat j) p s = (None, s)"
    by (rule texture_loop_done)
  then show ?case by simp
next
  case (Suc n)
  let ?lv = "(j, w, h, if w * h * 4 > length (pixels p) then None else Some (pixels p))"
  let ?c = "level_call ?lv"
  let ?s1 = "s @ [(?c, b s ?c)]"
  let ?e = "b ?s1 GetError"
  let ?s2 = "?s1 @ [(GetError, ?e)]"
  let ?w = "max 1 (w div 2)" and ?h = "max 1 (h div 2)"
  let ?p = "p\<lparr>pixels := drop (min (w * h * 4) (length (pixels p))) (pixels p),
              width := of_nat ?w, height := of_nat ?h\<rparr>"
  have lt: "j < N" using Suc.prems(5) by simp
  note step = texture_loop_step [OF Suc.prems(2) Suc.prems(4) lt Suc.prems(6-9), of b s]
  have chain: "mip_chain j (Suc n) w h (pixels p) =
                 ?lv # mip_chain (Suc j) n ?w ?h (pixels ?p)"
    by simp
  have IH: "texture_loop b (of_nat (Suc j)) ?p ?s2 =
              mip_walk b (mip_chain (Suc j) n ?w ?h (pixels ?p)) ?s2"
  proof (rule Suc.IH)
    show "1 \<le> ?w" "1 \<le> ?h" by simp_all
    show "?w \<le> 16383" "?h \<le> 16383"
      using Suc.prems(2,4) by simp_all
    show "Suc j + n = N" using Suc.prems(5) by simp
    show "N \<le> 16383" by (rule Suc.prems(6))
    show "width ?p = of_nat ?w" "height ?p = of_nat ?h" by simp_all
    show "mipmap_count ?p = of_nat N" using Suc.prems(9) by simp
  qed
  have "mip_walk b (mip_chain j (Suc n) w h (pixels p)) s =
          (if ?e \<noteq> GL_NO_ERROR then (Some \<lparr>line = 245, code = uint ?e\<rparr>, ?s2)
           else mip_walk b (mip_chain (Suc j) n ?w ?h (pixels ?p)) ?s2)"
    unfolding chain by (simp add: Let_def)
  also have "\<dots> = texture_loop b (of_nat j) p s"
    unfolding step IH by simp
  finally show ?case by simp
qed

lemma mip_walk_log:
  "\<exists>k evs. k \<le> length lvs \<and> snd (mip_walk b lvs s) = s @ evs \<and>
     calls evs = concat (map (\<lambda>lv. [level_call lv, GetError]) (take k lvs)) \<and>
     (fst (mip_walk b lvs s) = None \<longrightarrow>
        k = length lvs \<and> (\<forall>a. (GetError, a) \<in> set evs \<longrightarrow> a = GL_NO_ERROR)) \<and>
     (\<forall>e. fst (mip_walk b lvs s) = Some e \<longrightarrow>
        1 \<le> k \<and> (\<exists>a. a \<noteq> GL_NO_ERROR \<and> evs \<noteq> [] \<and> last evs = (GetError, a) \<and>
                      e = \<lparr>line = 245, code = uint a\<rparr>))"
proof (induction lvs arbitrary: s)
  case Nil
  show ?case
    by (intro exI [of _ 0] exI [of _ "[]"]) simp
next
  case (Cons lv lvs)
  let ?c = "level_call lv"
  let ?s1 = "s @ [(?c, b s ?c)]"
  let ?e = "b ?s1 GetError"
  let ?s2 = "?s1 @ [(GetError, ?e)]"
  have unfold: "mip_walk b (lv # lvs) s =
      (if ?e \<noteq> GL_NO_ERROR then (Some \<lparr>line = 245, code = uint ?e\<rparr>, ?s2)
       else mip_walk b lvs ?s2)"
    by (simp add: Let_def)
  have c_ne: "?c \<noteq> GetError"
    by (cases lv) (simp add: level_call_def)
  show ?case
  proof (cases "?e = GL_NO_ERROR")
    case False
    then show ?thesis
      unfolding unfold
      by (intro exI [of _ 1] exI [of _ "[(?c, b s ?c), (GetError, ?e)]"]) simp
  next
    case True
    from Cons.IH [of ?s2] obtain k evs where IH: "k \<le> length lvs \<and>
        snd (mip_walk b lvs ?s2) = ?s2 @ evs \<and>
        calls evs = concat (map (\<lambda>lv. [level_call lv, GetError]) (take k lvs)) \<and>
        (fst (mip_walk b lvs ?s2) = None \<longrightarrow>
           k = length lvs \<and> (\<forall>a. (GetError, a) \<in> set evs \<longrightarrow> a = GL_NO_ERROR)) \<and>
        (\<forall>e. fst (mip_walk b lvs ?s2) = Some e \<longrightarrow>
           1 \<le> k \<and> (\<exists>a. a \<noteq> GL_NO_ERROR \<and> evs \<noteq> [] \<and> last evs = (GetError, a) \<and>
                         e = \<lparr>line = 245, code = uint a\<rparr>))"
      by (elim exE) (rule that)
    have run: "mip_walk b (lv # lvs) s = mip_walk b lvs ?s2"
      using True unfolding unfold by simp
    show ?thesis
      unfolding run
      using IH True c_ne
      by (intro exI [of _ "Suc k"] exI [of _ "[(?c, b s ?c), (GetError, ?e)] @ evs"]) auto
  qed
qed

lemma mip_chain_length: "length (mip_chain i n w h px) = n"
  by (induction n arbitrary: i w h px) simp_all

lemma mip_walk_clean:
  "\<forall>t. b t GetError = GL_NO_ERROR \<Longrightarrow> fst (mip_walk b lvs s) = None"
  by (induction lvs arbitrary: s) (simp_all add: Let_def)


lemma validated_extent:
  fixes x :: "32 word"
  assumes "\<not> (x \<le>s 0 \<or> 16384 \<le>s x)"
  shows "1 \<le> unat x \<and> unat x \<le> 16383 \<and> x = of_nat (unat x)"
proof -
  from assms have pos: "0 < sint x" and lt: "sint x < 16384"
    by (simp_all add: word_sle_eq not_le)
  have "uint x = take_bit 32 (sint x)"
    using uint_sint [of x] by simp
  also have "\<dots> = sint x"
  proof (rule take_bit_int_eq_self)
    show "0 \<le> sint x" using pos by simp
    show "sint x < 2 ^ 32" using lt by simp
  qed
  finally have "uint x = sint x" .
  moreover have "int (unat x) = uint x"
    by simp
  ultimately have "1 \<le> unat x" "unat x \<le> 16383"
    using pos lt by linarith+
  then show ?thesis by simp
qed

text \<open>
  \<^bold>\<open>C3.\<close> For parameters that pass the checks of texture initialization (width,
  height and number of mipmaps each from 1 to 16383) and any pixel span, the loop is the
  specification's walk over the specification's chain of levels: same result, same log.
  Level after level from level 0 it makes the \<^verbatim>\<open>glTexImage2D\<close> call of the level and
  asks \<^verbatim>\<open>glGetError\<close>: the level's size is width times height times 4, its data
  pointer is null exactly when that size exceeds the length of the remaining span and is
  the remaining span otherwise, the span advances by the smaller of the size and its
  length, and width and height are halved, rounding down, but not below 1. The loop ends
  without an error only after all levels, every \<^verbatim>\<open>glGetError\<close> having answered
  \<open>GL_NO_ERROR\<close>; it ends with an error only when the last answer of \<^verbatim>\<open>glGetError\<close>
  was one, and the error is that of line 245 with that answer as its code. With a
  backend that reports no error it walks all levels. Texture initialization, once the
  texture is generated and bound without an error, returns what the walk yields: the
  walk's error, or the texture; in both cases after unbinding.
\<close>

theorem mip_chain_walk:
  assumes "\<not> (width p \<le>s 0 \<or> 16384 \<le>s width p)"
    and "\<not> (height p \<le>s 0 \<or> 16384 \<le>s height p)"
    and "\<not> (mipmap_count p \<le>s 0 \<or> 16384 \<le>s mipmap_count p)"
  shows "1 \<le> unat (width p) \<and> unat (width p) \<le> 16383 \<and>
         1 \<le> unat (height p) \<and> unat (height p) \<le> 16383 \<and>
         1 \<le> unat (mipmap_count p) \<and> unat (mipmap_count p) \<le> 16383 \<and>
         (let chain = mip_chain 0 (unat (mipmap_count p)) (unat (width p)) (unat (height p))
                        (pixels p)
          in texture_loop b 0 p s = mip_walk b chain s \<and>
             (\<exists>k evs. k \<le> unat (mipmap_count p) \<and>
                snd (texture_loop b 0 p s) = s @ evs \<and>
                calls evs = concat (map (\<lambda>lv. [level_call lv, GetError]) (take k chain)) \<and>
                (fst (texture_loop b 0 p s) = None \<longrightarrow>
                   k = unat (mipmap_count p) \<and>
                   (\<forall>a. (GetError, a) \<in> set evs \<longrightarrow> a = GL_NO_ERROR)) \<and>
                (\<forall>e. fst (texture_loop b 0 p s) = Some e \<longrightarrow>
                   1 \<le> k \<and>
                   (\<exists>a. a \<noteq> GL_NO_ERROR \<and> evs \<noteq> [] \<and> last evs = (GetError, a) \<and>
                        e = \<lparr>line = 245, code = uint a\<rparr>))) \<and>
             ((\<forall>t. b t GetError = GL_NO_ERROR) \<longrightarrow> fst (texture_loop b 0 p s) = None) \<and>
             (\<forall>s0. discard_errors b s = Some s0 \<longrightarrow>
                (let (h, s1) = gl b GenTextures s0;
                     (c, s2) = glGetError b s1;
                     s3 = gl_void b (BindTexture GL_TEXTURE_2D h) s2;
                     (c', s4) = glGetError b s3
                 in c = GL_NO_ERROR \<and> c' = GL_NO_ERROR \<longrightarrow>
                    initialize_texture b p s =
                      (case mip_walk b chain s4 of
                         (Some e, s5) \<Rightarrow>
                           Some (Inl e, object_destroy (texture_deleter b) \<lparr>handle = h\<rparr>
                                          (gl_void b (BindTexture GL_TEXTURE_2D 0) s5))
                       | (None, s5) \<Rightarrow>
                           Some (Inr \<lparr>handle = h\<rparr>,
                                 gl_void b (BindTexture GL_TEXTURE_2D 0) s5)))))"
proof -
  let ?N = "unat (mipmap_count p)"
  let ?chain = "mip_chain 0 ?N (unat (width p)) (unat (height p)) (pixels p)"
  note w = validated_extent [OF assms(1)]
  note h = validated_extent [OF assms(2)]
  note n = validated_extent [OF assms(3)]
  have eq0: "texture_loop b (of_nat 0) p t = mip_walk b ?chain t" for t
  proof (rule texture_loop_walk)
    show "1 \<le> unat (width p)" "unat (width p) \<le> 16383" using w by blast+
    show "1 \<le> unat (height p)" "unat (height p) \<le> 16383" using h by blast+
    show "0 + ?N = ?N" by simp
    show "?N \<le> 16383" using n by blast
    show "width p = of_nat (unat (width p))" "height p = of_nat (unat (height p))"
      "mipmap_count p = of_nat ?N"
      by simp_all
  qed
  have eq: "texture_loop b 0 p t = mip_walk b ?chain t" for t
    using eq0 [of t] by (simp only: semiring_1_class.of_nat_0)
  have len: "length ?chain = ?N"
    by (rule mip_chain_length)
  have log: "\<exists>k evs. k \<le> ?N \<and>
                snd (texture_loop b 0 p s) = s @ evs \<and>
                calls evs = concat (map (\<lambda>lv. [level_call lv, GetError]) (take k ?chain)) \<and>
                (fst (texture_loop b 0 p s) = None \<longrightarrow>
                   k = ?N \<and> (\<forall>a. (GetError, a) \<in> set evs \<longrightarrow> a = GL_NO_ERROR)) \<and>
                (\<forall>e. fst (texture_loop b 0 p s) = Some e \<longrightarrow>
                   1 \<le> k \<and>
                   (\<exists>a. a \<noteq> GL_NO_ERROR \<and> evs \<noteq> [] \<and> last evs = (GetError, a) \<and>
                        e = \<lparr>line = 245, code = uint a\<rparr>))"
    using mip_walk_log [of ?chain b s] unfolding eq len .
  have clean: "(\<forall>t. b t GetError = GL_NO_ERROR) \<longrightarrow> fst (texture_loop b 0 p s) = None"
    unfolding eq by (blast intro: mip_walk_clean)
  have init: "\<forall>s0. discard_errors b s = Some s0 \<longrightarrow>
                (let (h, s1) = gl b GenTextures s0;
                     (c, s2) = glGetError b s1;
                     s3 = gl_void b (BindTexture GL_TEXTURE_2D h) s2;
                     (c', s4) = glGetError b s3
                 in c = GL_NO_ERROR \<and> c' = GL_NO_ERROR \<longrightarrow>
                    initialize_texture b p s =
                      (case mip_walk b ?chain s4 of
                         (Some e, s5) \<Rightarrow>
                           Some (Inl e, object_destroy (texture_deleter b) \<lparr>handle = h\<rparr>
                                          (gl_void b (BindTexture GL_TEXTURE_2D 0) s5))
                       | (None, s5) \<Rightarrow>
                           Some (Inr \<lparr>handle = h\<rparr>,
                                 gl_void b (BindTexture GL_TEXTURE_2D 0) s5)))"
    using assms
    by (auto simp: initialize_texture_def eq unit_defs Let_def split: prod.splits option.splits)
  from w h n eq [of s] log clean init show ?thesis
    unfolding Let_def by (elim conjE) (intro conjI; assumption)
qed


lemma mip_chain_unfold:
  "0 < n \<Longrightarrow> mip_chain i n w h px =
     (i, w, h, if w * h * 4 > length px then None else Some px) #
     mip_chain (Suc i) (n - 1) (max 1 (w div 2)) (max 1 (h div 2))
       (drop (min (w * h * 4) (length px)) px)"
  by (cases n) simp_all

lemma mip_chain_examples:
  "mip_chain 0 4 256 256 (replicate 262144 0) =
     [(0, 256, 256, Some (replicate 262144 0)), (1, 128, 128, None),
      (2, 64, 64, None), (3, 32, 32, None)]"
  "map (\<lambda>(i, w, h, d). (i, w, h)) (mip_chain 0 3 1 1 px) = [(0, 1, 1), (1, 1, 1), (2, 1, 1)]"
  by (simp_all add: mip_chain_unfold)

lemmas loop_eval =
  Let_def gl_void_def gl_def glGetError_def scripted_def GL_NO_ERROR_def size_t_of_int_def
  int_div_def std_max_def word_sless_alt signed_divide_int_def

lemma mip_example_run:
  "texture_loop (scripted []) 0
     \<lparr>width = 256, height = 256, mipmap_count = 4, pixels = replicate 262144 0\<rparr> [] =
   (None,
    [(TexImage2D GL_TEXTURE_2D 0 GL_RGBA8 256 256 0 GL_RGBA GL_UNSIGNED_BYTE
        (Some (replicate 262144 0)), 0), (GetError, 0),
     (TexImage2D GL_TEXTURE_2D 1 GL_RGBA8 128 128 0 GL_RGBA GL_UNSIGNED_BYTE None, 0),
     (GetError, 0),
     (TexImage2D GL_TEXTURE_2D 2 GL_RGBA8 64 64 0 GL_RGBA GL_UNSIGNED_BYTE None, 0),
     (GetError, 0),
     (TexImage2D GL_TEXTURE_2D 3 GL_RGBA8 32 32 0 GL_RGBA GL_UNSIGNED_BYTE None, 0),
     (GetError, 0)])"
  apply (subst texture_loop.simps, simp add: loop_eval)
  apply (subst texture_loop.simps, simp add: loop_eval)
  apply (subst texture_loop.simps, simp add: loop_eval)
  apply (subst texture_loop.simps, simp add: loop_eval)
  apply (subst texture_loop.simps, simp add: loop_eval)
  done

lemma unit_extent_run:
  "texture_loop (scripted []) 0
     \<lparr>width = 1, height = 1, mipmap_count = 3, pixels = []\<rparr> [] =
   (None,
    [(TexImage2D GL_TEXTURE_2D 0 GL_RGBA8 1 1 0 GL_RGBA GL_UNSIGNED_BYTE None, 0),
     (GetError, 0),
     (TexImage2D GL_TEXTURE_2D 1 GL_RGBA8 1 1 0 GL_RGBA GL_UNSIGNED_BYTE None, 0),
     (GetError, 0),
     (TexImage2D GL_TEXTURE_2D 2 GL_RGBA8 1 1 0 GL_RGBA GL_UNSIGNED_BYTE None, 0),
     (GetError, 0)])"
  apply (subst texture_loop.simps, simp add: loop_eval)
  apply (subst texture_loop.simps, simp add: loop_eval)
  apply (subst texture_loop.simps, simp add: loop_eval)
  apply (subst texture_loop.simps, simp add: loop_eval)
  done

lemma error_stop_run:
  "texture_loop (scripted [0, 0, 0, 0x0505]) 0
     \<lparr>width = 1, height = 1, mipmap_count = 3, pixels = []\<rparr> [] =
   (Some \<lparr>line = 245, code = 0x0505\<rparr>,
    [(TexImage2D GL_TEXTURE_2D 0 GL_RGBA8 1 1 0 GL_RGBA GL_UNSIGNED_BYTE None, 0),
     (GetError, 0),
     (TexImage2D GL_TEXTURE_2D 1 GL_RGBA8 1 1 0 GL_RGBA GL_UNSIGNED_BYTE None, 0),
     (GetError, 0x0505)])"
  apply (subst texture_loop.simps, simp add: loop_eval)
  apply (subst texture_loop.simps, simp add: loop_eval)
  done

lemma texture_success_run:
  "initialize_texture (scripted [0, 9])
     \<lparr>width = 1, height = 1, mipmap_count = 3, pixels = []\<rparr> [] =
   Some (Inr \<lparr>handle = 9\<rparr>,
     [(GetError, 0), (GenTextures, 9), (GetError, 0), (BindTexture GL_TEXTURE_2D 9, 0),
      (GetError, 0),
      (TexImage2D GL_TEXTURE_2D 0 GL_RGBA8 1 1 0 GL_RGBA GL_UNSIGNED_BYTE None, 0),
      (GetError, 0),
      (TexImage2D GL_TEXTURE_2D 1 GL_RGBA8 1 1 0 GL_RGBA GL_UNSIGNED_BYTE None, 0),
      (GetError, 0),
      (TexImage2D GL_TEXTURE_2D 2 GL_RGBA8 1 1 0 GL_RGBA GL_UNSIGNED_BYTE None, 0),
      (GetError, 0), (BindTexture GL_TEXTURE_2D 0, 0)])"
  apply (simp add: initialize_texture_def discard_errors_scripted_0 unit_defs
      texture_deleter_def Let_def scripted_def word_sle_eq GL_NO_ERROR_def)
  apply (subst texture_loop.simps, simp add: loop_eval)
  apply (subst texture_loop.simps, simp add: loop_eval)
  apply (subst texture_loop.simps, simp add: loop_eval)
  apply (subst texture_loop.simps, simp add: loop_eval)
  apply (simp add: unit_defs texture_deleter_def scripted_def)
  done

theorem mip_chain_walk_witness:
  "\<not> (width \<lparr>width = 256, height = 256, mipmap_count = 4, pixels = replicate 262144 0\<rparr> \<le>s 0 \<or>
       16384 \<le>s width \<lparr>width = 256, height = 256, mipmap_count = 4,
                         pixels = replicate 262144 0\<rparr>) \<and>
   \<not> (height \<lparr>width = 256, height = 256, mipmap_count = 4, pixels = replicate 262144 0\<rparr> \<le>s 0 \<or>
       16384 \<le>s height \<lparr>width = 256, height = 256, mipmap_count = 4,
                          pixels = replicate 262144 0\<rparr>) \<and>
   \<not> (mipmap_count \<lparr>width = 256, height = 256, mipmap_count = 4,
                       pixels = replicate 262144 0\<rparr> \<le>s 0 \<or>
       16384 \<le>s mipmap_count \<lparr>width = 256, height = 256, mipmap_count = 4,
                                pixels = replicate 262144 0\<rparr>) \<and>
   texture_loop (scripted []) 0
       \<lparr>width = 256, height = 256, mipmap_count = 4, pixels = replicate 262144 0\<rparr> [] =
     mip_walk (scripted []) (mip_chain 0 4 256 256 (replicate 262144 0)) [] \<and>
   mip_chain 0 4 256 256 (replicate 262144 0) =
     [(0, 256, 256, Some (replicate 262144 0)), (1, 128, 128, None),
      (2, 64, 64, None), (3, 32, 32, None)] \<and>
   texture_loop (scripted []) 0
       \<lparr>width = 256, height = 256, mipmap_count = 4, pixels = replicate 262144 0\<rparr> [] =
     (None,
      [(TexImage2D GL_TEXTURE_2D 0 GL_RGBA8 256 256 0 GL_RGBA GL_UNSIGNED_BYTE
          (Some (replicate 262144 0)), 0), (GetError, 0),
       (TexImage2D GL_TEXTURE_2D 1 GL_RGBA8 128 128 0 GL_RGBA GL_UNSIGNED_BYTE None, 0),
       (GetError, 0),
       (TexImage2D GL_TEXTURE_2D 2 GL_RGBA8 64 64 0 GL_RGBA GL_UNSIGNED_BYTE None, 0),
       (GetError, 0),
       (TexImage2D GL_TEXTURE_2D 3 GL_RGBA8 32 32 0 GL_RGBA GL_UNSIGNED_BYTE None, 0),
       (GetError, 0)]) \<and>
   texture_loop (scripted []) 0
       \<lparr>width = 1, height = 1, mipmap_count = 3, pixels = []\<rparr> [] =
     (None,
      [(TexImage2D GL_TEXTURE_2D 0 GL_RGBA8 1 1 0 GL_RGBA GL_UNSIGNED_BYTE None, 0),
       (GetError, 0),
       (TexImage2D GL_TEXTURE_2D 1 GL_RGBA8 1 1 0 GL_RGBA GL_UNSIGNED_BYTE None, 0),
       (GetError, 0),
       (TexImage2D GL_TEXTURE_2D 2 GL_RGBA8 1 1 0 GL_RGBA GL_UNSIGNED_BYTE None, 0),
       (GetError, 0)]) \<and>
   texture_loop (scripted [0, 0, 0, 0x0505]) 0
       \<lparr>width = 1, height = 1, mipmap_count = 3, pixels = []\<rparr> [] =
     (Some \<lparr>line = 245, code = 0x0505\<rparr>,
      [(TexImage2D GL_TEXTURE_2D 0 GL_RGBA8 1 1 0 GL_RGBA GL_UNSIGNED_BYTE None, 0),
       (GetError, 0),
       (TexImage2D GL_TEXTURE_2D 1 GL_RGBA8 1 1 0 GL_RGBA GL_UNSIGNED_BYTE None, 0),
       (GetError, 0x0505)]) \<and>
   initialize_texture (scripted [0, 9])
       \<lparr>width = 1, height = 1, mipmap_count = 3, pixels = []\<rparr> [] =
     Some (Inr \<lparr>handle = 9\<rparr>,
       [(GetError, 0), (GenTextures, 9), (GetError, 0), (BindTexture GL_TEXTURE_2D 9, 0),
        (GetError, 0),
        (TexImage2D GL_TEXTURE_2D 0 GL_RGBA8 1 1 0 GL_RGBA GL_UNSIGNED_BYTE None, 0),
        (GetError, 0),
        (TexImage2D GL_TEXTURE_2D 1 GL_RGBA8 1 1 0 GL_RGBA GL_UNSIGNED_BYTE None, 0),
        (GetError, 0),
        (TexImage2D GL_TEXTURE_2D 2 GL_RGBA8 1 1 0 GL_RGBA GL_UNSIGNED_BYTE None, 0),
        (GetError, 0), (BindTexture GL_TEXTURE_2D 0, 0)])"
proof -
  let ?p = "\<lparr>width = 256, height = 256, mipmap_count = 4, pixels = replicate 262144 0\<rparr>"
  have h1: "\<not> (width ?p \<le>s 0 \<or> 16384 \<le>s width ?p)"
    and h2: "\<not> (height ?p \<le>s 0 \<or> 16384 \<le>s height ?p)"
    and h3: "\<not> (mipmap_count ?p \<le>s 0 \<or> 16384 \<le>s mipmap_count ?p)"
    by (simp_all add: word_sle_eq)
  note walk = mip_chain_walk [OF h1 h2 h3, of "scripted []" "[]", unfolded Let_def]
  note eq = walk [THEN conjunct2, THEN conjunct2, THEN conjunct2, THEN conjunct2,
      THEN conjunct2, THEN conjunct2, THEN conjunct1]
  have r: "texture_loop (scripted []) 0 ?p [] =
     mip_walk (scripted []) (mip_chain 0 4 256 256 (replicate 262144 0)) []"
    using eq by simp
  show ?thesis
    apply (intro conjI)
           apply (rule h1)
          apply (rule h2)
         apply (rule h3)
        apply (rule r)
       apply (rule mip_chain_examples(1))
      apply (rule mip_example_run)
     apply (rule unit_extent_run)
    apply (rule error_stop_run)
    apply (rule texture_success_run)
    done
qed

subsection \<open>Binding points are left unbound\<close>

text \<open>The loop of texture initialization makes no bind call, and neither does the
  error-discarding loop.\<close>

lemma bindings_append: "bindings (s @ evs) = fold rebind (calls evs) (bindings s)"
  by (simp add: bindings_def)

lemma fold_rebind_unbound:
  "\<forall>c \<in> set cs. \<forall>q. \<not> binds q c \<Longrightarrow> fold rebind cs m = m"
proof (induction cs arbitrary: m)
  case Nil
  then show ?case by simp
next
  case (Cons c cs)
  from Cons.prems have "\<forall>q. \<not> binds q c"
    by simp
  then have "rebind c m = m"
    by (cases c) (auto simp: rebind_def binds_def)
  with Cons show ?case by simp
qed

lemma calls_get_errors: "calls (map (Pair GetError) es) = replicate (length es) GetError"
  by (induction es) simp_all

lemma fold_rebind_get_errors [simp]: "fold rebind (replicate n GetError) m = m"
  by (rule fold_rebind_unbound) (simp add: binds_def)

lemma texture_loop_log:
  "\<exists>evs. snd (texture_loop b i p s) = s @ evs \<and> (\<forall>c \<in> set (calls evs). \<forall>q. \<not> binds q c)"
proof (induction b i p s rule: texture_loop.induct)
  case (1 b i parameters s)
  show ?case
  proof (cases "i = mipmap_count parameters")
    case True
    then show ?thesis
      by (simp add: texture_loop_done)
  next
    case False
    define c where "c = TexImage2D GL_TEXTURE_2D i GL_RGBA8 (width parameters)
        (height parameters) 0 GL_RGBA GL_UNSIGNED_BYTE
        (if unat (width parameters * height parameters * 4) > length (pixels parameters)
         then None else Some (pixels parameters))"
    define s1 where "s1 = gl_void b c s"
    define e where "e = fst (glGetError b s1)"
    define s2 where "s2 = snd (glGetError b s1)"
    define p' where "p' = parameters
        \<lparr>pixels := drop (min (length (pixels parameters))
                      (size_t_of_int (width parameters * height parameters * 4)))
                   (pixels parameters),
         width := std_max 1 (int_div (width parameters) 2),
         height := std_max 1 (int_div (height parameters) 2)\<rparr>"
    have s2: "s2 = s @ [(c, b s c), (GetError, e)]"
      by (simp add: s2_def s1_def e_def gl_void_def gl_def glGetError_def)
    have nb: "\<not> binds q c" "\<not> binds q GetError" for q
      by (simp_all add: binds_def c_def)
    have unfold: "texture_loop b i parameters s =
        (if e \<noteq> GL_NO_ERROR then (Some \<lparr>line = 245, code = uint e\<rparr>, s2)
         else texture_loop b (i + 1) p' s2)"
      using False
      by (subst texture_loop.simps)
        (simp add: Let_def c_def s1_def e_def s2_def p'_def split: prod.splits)
    show ?thesis
    proof (cases "e = GL_NO_ERROR")
      case True
      have "\<exists>evs. snd (texture_loop b (i + 1) p' s2) = s2 @ evs \<and>
              (\<forall>c \<in> set (calls evs). \<forall>q. \<not> binds q c)"
        unfolding p'_def s2_def s1_def c_def
      proof (rule "1.IH" [OF False refl refl refl refl prod.collapse])
        show "\<not> fst (glGetError b
            (gl_void b
              (TexImage2D GL_TEXTURE_2D i GL_RGBA8 (width parameters) (height parameters) 0
                GL_RGBA GL_UNSIGNED_BYTE
                (if length (pixels parameters) < unat (width parameters * height parameters * 4)
                 then None else Some (pixels parameters)))
              s)) \<noteq> GL_NO_ERROR"
          using True by (simp add: e_def s1_def c_def)
      qed
      then obtain evs where evs: "snd (texture_loop b (i + 1) p' s2) = s2 @ evs \<and>
              (\<forall>c \<in> set (calls evs). \<forall>q. \<not> binds q c)"
        ..
      have "snd (texture_loop b i parameters s) = s @ ([(c, b s c), (GetError, e)] @ evs)"
        using True evs by (simp add: unfold s2)
      moreover have "\<forall>c \<in> set (calls ([(c, b s c), (GetError, e)] @ evs)). \<forall>q. \<not> binds q c"
        using evs nb by simp
      ultimately show ?thesis
        by (intro exI [of _ "[(c, b s c), (GetError, e)] @ evs"] conjI)
    next
      case False
      then have "snd (texture_loop b i parameters s) = s @ [(c, b s c), (GetError, e)]"
        by (simp add: unfold s2)
      moreover have "\<forall>c \<in> set (calls [(c, b s c), (GetError, e)]). \<forall>q. \<not> binds q c"
        using nb by simp
      ultimately show ?thesis
        by (intro exI [of _ "[(c, b s c), (GetError, e)]"] conjI)
    qed
  qed
qed


lemma texture_loop_bindings:
  "\<exists>evs. snd (texture_loop b i p s) = s @ evs \<and> fold rebind (calls evs) m = m \<and>
         (\<forall>c \<in> set (calls evs). \<forall>q. \<not> binds q c)"
  using texture_loop_log [of b i p s] fold_rebind_unbound by blast

lemma funpow_rebind_get_error [simp]: "(rebind GetError ^^ n) m = m"
  by (induction n) (simp_all add: rebind_def)

lemma buffer_unbinds:
  assumes "initialize_buffer b p s = Some (r, s')"
  shows "s' = s @ drop (length s) s' \<and>
         bindings s' =
           (if \<exists>c \<in> set (calls (drop (length s) s')). binds (BufferBinding (type p)) c
            then (bindings s)(BufferBinding (type p) := 0) else bindings s) \<and>
         (isl r \<or> (\<exists>c \<in> set (calls (drop (length s) s')). binds (BufferBinding (type p)) c))"
proof -
  from assms obtain s0 where s0: "discard_errors b s = Some s0"
    by (auto simp: initialize_buffer_def split: option.splits)
  from discard_errors_log [OF s0] obtain es where
    es: "s0 = s @ map (Pair GetError) (es @ [GL_NO_ERROR])"
    by auto
  from assms show ?thesis
    unfolding initialize_buffer_def s0 es
    by (auto simp: unit_defs buffer_deleter_def Let_def bindings_append calls_get_errors
        rebind_def binds_def split: if_splits)
qed


lemma texture_loop_logD:
  assumes "texture_loop b i p s = (x, s5)"
  shows "\<exists>evs. s5 = s @ evs \<and> (\<forall>m. fold rebind (calls evs) m = m) \<and>
               (\<forall>c \<in> set (calls evs). \<forall>q. \<not> binds q c)"
proof -
  from texture_loop_log [of b i p s] assms obtain evs where
    evs: "s5 = s @ evs \<and> (\<forall>c \<in> set (calls evs). \<forall>q. \<not> binds q c)"
    by auto
  then have "\<forall>m. fold rebind (calls evs) m = m"
    by (simp add: fold_rebind_unbound)
  with evs show ?thesis by blast
qed

lemma texture_unbinds:
  assumes "initialize_texture b p s = Some (r, s')"
  shows "s' = s @ drop (length s) s' \<and>
         bindings s' =
           (if \<exists>c \<in> set (calls (drop (length s) s')). binds (TextureBinding GL_TEXTURE_2D) c
            then (bindings s)(TextureBinding GL_TEXTURE_2D := 0) else bindings s) \<and>
         (isl r \<or> (\<exists>c \<in> set (calls (drop (length s) s')).
                      binds (TextureBinding GL_TEXTURE_2D) c))"
proof -
  from assms obtain s0 where s0: "discard_errors b s = Some s0"
    by (auto simp: initialize_texture_def split: option.splits)
  from discard_errors_log [OF s0] obtain es where
    es: "s0 = s @ map (Pair GetError) (es @ [GL_NO_ERROR])"
    by auto
  from assms show ?thesis
    unfolding initialize_texture_def s0 es
    by (auto simp: unit_defs texture_deleter_def Let_def bindings_append calls_get_errors
        rebind_def binds_def split: if_splits prod.splits option.splits
        dest!: texture_loop_logD)
qed

lemma framebuffer_unbinds:
  assumes "initialize_framebuffer b p s = Some (r, s')"
  shows "s' = s @ drop (length s) s' \<and>
         bindings s' =
           (if \<exists>c \<in> set (calls (drop (length s) s')). binds (FramebufferBinding GL_FRAMEBUFFER) c
            then (bindings s)(FramebufferBinding GL_FRAMEBUFFER := 0) else bindings s) \<and>
         (isl r \<or> (\<exists>c \<in> set (calls (drop (length s) s')).
                      binds (FramebufferBinding GL_FRAMEBUFFER) c))"
proof -
  from assms obtain s0 where s0: "discard_errors b s = Some s0"
    by (auto simp: initialize_framebuffer_def split: option.splits)
  from discard_errors_log [OF s0] obtain es where
    es: "s0 = s @ map (Pair GetError) (es @ [GL_NO_ERROR])"
    by auto
  from assms show ?thesis
    unfolding initialize_framebuffer_def s0 es
    by (auto simp: unit_defs framebuffer_deleter_def Let_def bindings_append calls_get_errors
        rebind_def binds_def split: if_splits)
qed


lemma buffer_success_run:
  "initialize_buffer (scripted [0, 7]) \<lparr>type = 0x8892, usage = 0x88E4, bytes = [1, 2, 3]\<rparr> [] =
   Some (Inr \<lparr>handle = 7\<rparr>,
     [(GetError, 0), (GenBuffers, 7), (GetError, 0), (BindBuffer 0x8892 7, 0),
      (BufferData 0x8892 3 [1, 2, 3] 0x88E4, 0), (GetError, 0), (BindBuffer 0x8892 0, 0)])"
  using size_check_passes [of 3]
  by (simp add: initialize_buffer_def discard_errors_scripted_0 unit_defs buffer_deleter_def
      Let_def scripted_def gl_consts)

lemma texture_failure_run:
  "initialize_texture (scripted [0, 9, 0, 0, 0, 0, 0x0501])
     \<lparr>width = 1, height = 1, mipmap_count = 1, pixels = []\<rparr> [] =
   Some (Inl \<lparr>line = 245, code = 0x0501\<rparr>,
     [(GetError, 0), (GenTextures, 9), (GetError, 0), (BindTexture GL_TEXTURE_2D 9, 0),
      (GetError, 0),
      (TexImage2D GL_TEXTURE_2D 0 GL_RGBA8 1 1 0 GL_RGBA GL_UNSIGNED_BYTE None, 0),
      (GetError, 0x0501), (BindTexture GL_TEXTURE_2D 0, 0), (DeleteTextures 9, 0)])"
  apply (simp add: initialize_texture_def discard_errors_scripted_0 unit_defs
      texture_deleter_def Let_def scripted_def word_sle_eq GL_NO_ERROR_def)
  apply (subst texture_loop.simps)
  apply (simp add: loop_eval)
  apply (simp add: unit_defs texture_deleter_def scripted_def)
  done

text \<open>
  \<^bold>\<open>C4.\<close> Whenever buffer, texture or framebuffer initialization returns, its
  binding point (the buffer target given in the parameters, \<open>GL_TEXTURE_2D\<close>,
  \<open>GL_FRAMEBUFFER\<close>) is unbound if the invocation made any bind call on it, that is
  on every return after the guard is in place, success or failure; no other binding
  point is changed. A return before the guard makes no bind call and changes no
  binding point. Every successful return is one after the guard.
\<close>

theorem binding_point_restored:
  "(initialize_buffer b bp s = Some (r, s') \<longrightarrow>
      leaves_unbound (BufferBinding (type bp)) r s s') \<and>
   (initialize_texture b tp s = Some (r, s') \<longrightarrow>
      leaves_unbound (TextureBinding GL_TEXTURE_2D) r s s') \<and>
   (initialize_framebuffer b fp s = Some (r, s') \<longrightarrow>
      leaves_unbound (FramebufferBinding GL_FRAMEBUFFER) r s s')"
  unfolding leaves_unbound_def
  using buffer_unbinds [of b bp s r s'] texture_unbinds [of b tp s r s']
    framebuffer_unbinds [of b fp s r s']
  by blast

theorem binding_point_restored_witness:
  "initialize_buffer (scripted [0, 7]) \<lparr>type = 0x8892, usage = 0x88E4, bytes = [1, 2, 3]\<rparr> [] =
     Some (Inr \<lparr>handle = 7\<rparr>,
       [(GetError, 0), (GenBuffers, 7), (GetError, 0), (BindBuffer 0x8892 7, 0),
        (BufferData 0x8892 3 [1, 2, 3] 0x88E4, 0), (GetError, 0), (BindBuffer 0x8892 0, 0)]) \<and>
   bindings
       [(GetError, 0), (GenBuffers, 7), (GetError, 0), (BindBuffer 0x8892 7, 0),
        (BufferData 0x8892 3 [1, 2, 3] 0x88E4, 0), (GetError, 0), (BindBuffer 0x8892 0, 0)]
     (BufferBinding 0x8892) = 0 \<and>
   initialize_texture (scripted [0, 9, 0, 0, 0, 0, 0x0501])
       \<lparr>width = 1, height = 1, mipmap_count = 1, pixels = []\<rparr> [] =
     Some (Inl \<lparr>line = 245, code = 0x0501\<rparr>,
       [(GetError, 0), (GenTextures, 9), (GetError, 0), (BindTexture GL_TEXTURE_2D 9, 0),
        (GetError, 0),
        (TexImage2D GL_TEXTURE_2D 0 GL_RGBA8 1 1 0 GL_RGBA GL_UNSIGNED_BYTE None, 0),
        (GetError, 0x0501), (BindTexture GL_TEXTURE_2D 0, 0), (DeleteTextures 9, 0)]) \<and>
   bindings
       [(GetError, 0), (GenTextures, 9), (GetError, 0), (BindTexture GL_TEXTURE_2D 9, 0),
        (GetError, 0),
        (TexImage2D GL_TEXTURE_2D 0 GL_RGBA8 1 1 0 GL_RGBA GL_UNSIGNED_BYTE None, 0),
        (GetError, 0x0501), (BindTexture GL_TEXTURE_2D 0, 0), (DeleteTextures 9, 0)]
     (TextureBinding GL_TEXTURE_2D) = 0 \<and>
   initialize_framebuffer (scripted [0, 3, 0, 0, 0, 0x8CD6])
       \<lparr>render_target = 4, depth_buffer = 0\<rparr> [] =
     Some (Inl \<lparr>line = 329, code = 0x8CD6\<rparr>,
       [(GetError, 0), (GenFramebuffers, 3), (GetError, 0),
        (BindFramebuffer GL_FRAMEBUFFER 3, 0),
        (FramebufferTexture2D GL_FRAMEBUFFER GL_COLOR_ATTACHMENT0 GL_TEXTURE_2D 4 0, 0),
        (CheckFramebufferStatus GL_FRAMEBUFFER, 0x8CD6),
        (BindFramebuffer GL_FRAMEBUFFER 0, 0),
        (DeleteFramebuffers 3, 0)]) \<and>
   bindings
       [(GetError, 0), (GenFramebuffers, 3), (GetError, 0),
        (BindFramebuffer GL_FRAMEBUFFER 3, 0),
        (FramebufferTexture2D GL_FRAMEBUFFER GL_COLOR_ATTACHMENT0 GL_TEXTURE_2D 4 0, 0),
        (CheckFramebufferStatus GL_FRAMEBUFFER, 0x8CD6),
        (BindFramebuffer GL_FRAMEBUFFER 0, 0),
        (DeleteFramebuffers 3, 0)]
     (FramebufferBinding GL_FRAMEBUFFER) = 0"
proof -
  note b = binding_point_restored
    [where b = "scripted [0, 7]" and s = "[]"
       and bp = "\<lparr>type = 0x8892, usage = 0x88E4, bytes = [1, 2, 3]\<rparr>",
     THEN conjunct1, rule_format, OF buffer_success_run]
  note t = binding_point_restored
    [where b = "scripted [0, 9, 0, 0, 0, 0, 0x0501]" and s = "[]"
       and tp = "\<lparr>width = 1, height = 1, mipmap_count = 1, pixels = []\<rparr>",
     THEN conjunct2, THEN conjunct1, rule_format, OF texture_failure_run]
  note f = binding_point_restored
    [where b = "scripted [0, 3, 0, 0, 0, 0x8CD6]" and s = "[]"
       and fp = "\<lparr>render_target = 4, depth_buffer = 0\<rparr>",
     THEN conjunct2, THEN conjunct2, rule_format, OF framebuffer_incomplete_run [simplified]]
  from b t f show ?thesis
    using buffer_success_run texture_failure_run framebuffer_incomplete_run
    by (simp add: leaves_unbound_def bindings_def rebind_def binds_def)
qed

end
